theory Spec2Isabelle
  imports Main "HOL-Library.Word"
begin

unbundle bit_operations_syntax

section \<open>Common data\<close>

type_synonym u8 = "8 word"
type_synonym u16 = "16 word"
type_synonym u32 = "32 word"
type_synonym u64 = "64 word"

text \<open>
  A MAC address is a \<open>uint8_t[6]\<close> that the code only ever copies and compares with
  \<open>memcmp(a, b, 6)\<close>: a 48-bit value.
\<close>

type_synonym mac_addr = "48 word"

text \<open>
  \<open>enum mmpdu_reason_code\<close> (mpdu.h).  The sources pass its members both as reason codes
  and as the status code of a response; \<open>MMPDU_REASON_CODE_wire\<close> is a value read off a
  received frame.  The older netdev.c spells the prefix \<open>MPDU_\<close>.
\<close>

datatype mmpdu_reason_code =
    MMPDU_REASON_CODE_UNSPECIFIED
  | MMPDU_REASON_CODE_DEAUTH_LEAVING
  | MMPDU_REASON_CODE_DISASSOC_AP_BUSY
  | MMPDU_REASON_CODE_CLASS3_FRAME_FROM_NONASSOC_STA
  | MMPDU_REASON_CODE_STA_REQ_ASSOC_WITHOUT_AUTH
  | MMPDU_REASON_CODE_INVALID_IE
  | MMPDU_REASON_CODE_INVALID_GROUP_CIPHER
  | MMPDU_REASON_CODE_INVALID_PAIRWISE_CIPHER
  | MMPDU_REASON_CODE_INVALID_AKMP
  | MMPDU_REASON_CODE_wire u16

text \<open>The status field of a response: the literal 0 of the sources, or a reason code.\<close>

datatype status_code = STATUS_SUCCESS | STATUS_FAIL mmpdu_reason_code

text \<open>Element ids of \<open>enum ie_type\<close> (ie.h), as IEEE 802.11 numbers them.\<close>

definition IE_TYPE_SSID :: u8 where "IE_TYPE_SSID = 0"
definition IE_TYPE_SUPPORTED_RATES :: u8 where "IE_TYPE_SUPPORTED_RATES = 1"
definition IE_TYPE_DSSS_PARAMETER_SET :: u8 where "IE_TYPE_DSSS_PARAMETER_SET = 3"
definition IE_TYPE_RSN :: u8 where "IE_TYPE_RSN = 48"
definition IE_TYPE_EXTENDED_SUPPORTED_RATES :: u8 where "IE_TYPE_EXTENDED_SUPPORTED_RATES = 50"
definition IE_TYPE_MOBILITY_DOMAIN :: u8 where "IE_TYPE_MOBILITY_DOMAIN = 54"
definition IE_TYPE_SSID_LIST :: u8 where "IE_TYPE_SSID_LIST = 84"


text \<open>
  Modelled from the spec: the generic TLV iterator (\<open>ie_tlv_iter_init\<close>,
  \<open>ie_tlv_iter_next\<close> of ie.c, which is not among the sources).  Section 4.1: \<open>next()\<close>
  returns (tag, length, bytes), each element once; a TLV whose length would run past the
  buffer ends the iteration.  The callers loop \<open>while (ie_tlv_iter_next(&iter))\<close>, so a
  bogus length silently ends their loop.
\<close>

fun ie_tlv_iter :: "u8 list \<Rightarrow> (u8 \<times> u8 list) list" where
  "ie_tlv_iter (t # l # rest) =
     (if unat l \<le> length rest
      then (t, take (unat l) rest) # ie_tlv_iter (drop (unat l) rest)
      else [])"
| "ie_tlv_iter [t] = []"
| "ie_tlv_iter [] = []"

text \<open>
  \<open>ie_tlv_iter_get_data(&iter) - 2\<close>: the element with its two header bytes, as it stands
  in the frame.
\<close>

definition ie_raw :: "u8 \<times> u8 list \<Rightarrow> u8 list" where
  "ie_raw e = fst e # of_nat (length (snd e)) # snd e"

text \<open>\<open>strlen\<close> of a C string held in a byte list.\<close>

definition strlen :: "u8 list \<Rightarrow> nat" where
  "strlen s = length (takeWhile (\<lambda>c. c \<noteq> 0) s)"

text \<open>\<open>memcmp(a, b, n) == 0\<close>.\<close>

definition memcmp_eq :: "u8 list \<Rightarrow> u8 list \<Rightarrow> nat \<Rightarrow> bool" where
  "memcmp_eq a b n = (take n a = take n b)"

text \<open>
  What ends the process instead of a result: a NULL pointer is dereferenced, or memory is
  read or written after it was freed.
\<close>

datatype fault = NULL_dereference | Use_after_free

text \<open>\<open>struct ie_rsn_info\<close> (ie.h): the fields the sources read or write.\<close>

record ie_rsn_info =
  group_cipher :: u32
  pairwise_ciphers :: u16
  akm_suites :: u16
  mfpr :: bool
  mfpc :: bool
  spp_a_msdu_capable :: bool
  spp_a_msdu_required :: bool
  num_pmkids :: nat
  pmkids :: "u8 list"
  group_management_cipher :: u32

definition IE_RSN_AKM_SUITE_PSK :: u16 where "IE_RSN_AKM_SUITE_PSK = 2"
definition IE_RSN_CIPHER_SUITE_TKIP :: u16 where "IE_RSN_CIPHER_SUITE_TKIP = 4"
definition IE_RSN_CIPHER_SUITE_CCMP :: u16 where "IE_RSN_CIPHER_SUITE_CCMP = 8"

text \<open>\<open>struct ie_ft_info\<close> (ie.h).\<close>

record ie_ft_info =
  mic_element_count :: u8
  mic :: "u8 list"
  anonce :: "u8 list"
  snonce :: "u8 list"
  r0khid :: "u8 list"
  r0khid_len :: nat
  r1khid :: "u8 list"
  r1khid_present :: bool
  gtk_key_id :: u8
  gtk_len :: nat
  gtk_rsc :: "u8 list"
  gtk :: "u8 list"
  igtk_key_id :: u16
  igtk_ipn :: "u8 list"
  igtk_len :: nat
  igtk :: "u8 list"

text \<open>The WSC structures of wscutil.h that ap.c fills in or reads.\<close>

record wsc_probe_request =
  config_methods :: u16
  device_password_id :: u16
  req_uuid_e :: "u8 list"

record wsc_association_request =
  request_version2 :: bool
  request_type :: u8

record wsc_probe_response =
  pr_version2 :: bool
  pr_configured :: bool
  pr_selected_registrar :: bool
  pr_device_password_id :: u16
  pr_selected_reg_config_methods :: u16
  pr_uuid_e :: "u8 list"
  pr_config_methods :: u16

record wsc_beacon =
  b_version2 :: bool
  b_configured :: bool
  b_selected_registrar :: bool
  b_device_password_id :: u16
  b_selected_reg_config_methods :: u16

record wsc_association_response =
  resp_version2 :: bool

definition WSC_CONFIGURATION_METHOD_PUSH_BUTTON :: u16 where
  "WSC_CONFIGURATION_METHOD_PUSH_BUTTON = 0x0080"
definition WSC_DEVICE_PASSWORD_ID_PUSH_BUTTON :: u16 where
  "WSC_DEVICE_PASSWORD_ID_PUSH_BUTTON = 0x0004"
definition WSC_REQUEST_TYPE_ENROLLEE_OPEN_8021X :: u8 where
  "WSC_REQUEST_TYPE_ENROLLEE_OPEN_8021X = 0x01"

datatype mpdu_management_subtype =
    MPDU_MANAGEMENT_SUBTYPE_ASSOCIATION_RESPONSE
  | MPDU_MANAGEMENT_SUBTYPE_REASSOCIATION_RESPONSE
  | MPDU_MANAGEMENT_SUBTYPE_PROBE_RESPONSE
  | MPDU_MANAGEMENT_SUBTYPE_BEACON
  | MPDU_MANAGEMENT_SUBTYPE_AUTHENTICATION

text \<open>
  The functions of ie.c, wscutil.c and ell that ap.c and netdev.c call and that are not
  among the sources.  They are parameters of the model: each field is the function's result
  as the caller sees it (\<open>None\<close>: a negative return or a NULL pointer).  A parser takes the
  element with its two header bytes.
  \<^item> \<open>ie_build_rsne\<close> and \<open>ie_build_fast_bss_transition\<close> return their success flag and
    the bytes they leave in the caller's buffer; netdev.c ignores the flag.
  \<^item> \<open>l_uintset_new_range n\<close> is the range of values a set made by \<open>l_uintset_new(n)\<close>
    can hold (\<open>l_uintset_put\<close> of any other value leaves the set as it is).
  \<^item> \<open>ops_write_extra_ies\<close> is the optional callback of \<open>struct ap_ops\<close>.
\<close>

record ie_env =
  ie_parse_rsne :: "u8 list \<Rightarrow> ie_rsn_info option"
  ie_build_rsne :: "ie_rsn_info \<Rightarrow> bool \<times> u8 list"
  ie_parse_fast_bss_transition :: "u8 list \<Rightarrow> ie_ft_info option"
  ie_build_fast_bss_transition :: "ie_ft_info \<Rightarrow> bool \<times> u8 list"
  ie_tlv_extract_wsc_payload :: "u8 list \<Rightarrow> u8 list option"
  ie_tlv_encapsulate_wsc_payload :: "u8 list \<Rightarrow> u8 list option"
  wsc_parse_probe_request :: "u8 list \<Rightarrow> wsc_probe_request option"
  wsc_parse_association_request :: "u8 list \<Rightarrow> wsc_association_request option"
  wsc_build_probe_response :: "wsc_probe_response \<Rightarrow> u8 list option"
  wsc_build_beacon :: "wsc_beacon \<Rightarrow> u8 list option"
  wsc_build_association_response :: "wsc_association_response \<Rightarrow> u8 list option"
  l_uintset_new_range :: "nat \<Rightarrow> nat set"
  ops_write_extra_ies :: "(mpdu_management_subtype \<Rightarrow> u8 list) option"

section \<open>The access point (ap.c)\<close>

subsection \<open>State\<close>

text \<open>
  \<open>struct sta_state\<close>.  The EAPoL state machine, the handshake state, the WSC settings and
  the idle work are objects of other modules: the record holds whether the pointer is set.
  \<open>assoc_rsne\<close> points into \<open>assoc_ies\<close>; the record holds the element it points at.
  \<open>rates\<close> is a \<open>struct l_uintset *\<close>.
\<close>

record sta_state =
  addr :: mac_addr
  associated :: bool
  rsna :: bool
  aid :: u16
  capability :: u16
  listen_interval :: u16
  rates :: "nat set option"
  assoc_resp_cmd_id :: u32
  assoc_ies :: "u8 list option"
  assoc_rsne :: "u8 list option"
  sm :: bool
  hs :: bool
  gtk_query_cmd_id :: u32
  stop_handshake_work :: bool
  wsc_settings :: bool
  wsc_uuid_e :: "u8 list"
  wsc_v2 :: bool

record ap_wsc_pbc_probe_record =
  mac :: mac_addr
  uuid_e :: "u8 list"
  timestamp :: u64

text \<open>\<open>struct ap_config\<close> (ap.h): the fields the modelled functions read.\<close>

record ap_config =
  ssid :: "u8 list"
  channel :: u8
  authorized_macs :: "mac_addr list"
  wsc_name :: "u8 list option"

datatype ap_event_type =
    AP_EVENT_STATION_ADDED mac_addr
  | AP_EVENT_STATION_REMOVED mac_addr "mmpdu_reason_code option"
  | AP_EVENT_REGISTRATION_START mac_addr
  | AP_EVENT_REGISTRATION_SUCCESS mac_addr
  | AP_EVENT_PBC_MODE_EXIT

text \<open>Management frames the access point builds, by the fields it sets.\<close>

datatype mgmt_frame =
    Authentication_frame mac_addr mac_addr mac_addr u16 u16 status_code
      \<comment> \<open>DA, SA, BSSID, algorithm, transaction sequence, status\<close>
  | Association_response bool mac_addr mac_addr mac_addr u16 status_code u16 "u8 list" "u8 list"
      \<comment> \<open>reassoc, DA, SA, BSSID, capability, status, AID field, rates, extra IEs\<close>
  | Probe_response mac_addr mac_addr mac_addr u16 u16 "u8 list" "u8 list" u8 "u8 list"
      \<comment> \<open>DA, SA, BSSID, beacon interval (\<open>l_put_le16\<close>), capability, SSID, rates,
          channel, tail\<close>

datatype frame_xchg_cb =
    ap_auth_reply_cb | ap_success_assoc_resp_cb_ref | ap_fail_assoc_resp_cb | ap_probe_resp_cb

text \<open>
  The \<open>user_data\<close> pointer \<open>ap_send_mgmt_frame\<close> hands on with the callback: NULL, or a
  \<open>struct sta_state *\<close> (the station is known by its address).  \<open>User_data_freed\<close> is
  such a pointer after \<open>ap_sta_free\<close> has freed the station.
\<close>

datatype user_data = User_data_NULL | User_data_sta mac_addr | User_data_freed

datatype ap_nl_cmd =
    NL80211_CMD_SET_BEACON "u8 list"
  | NL80211_CMD_SET_STATION_unauthorized mac_addr u16
  | NL80211_CMD_SET_STATION_associated mac_addr u16
  | NL80211_CMD_NEW_STATION mac_addr u16
  | NL80211_CMD_DEL_KEY mac_addr

text \<open>
  What the access point does to the world outside \<open>struct ap_state\<close>, in the order it does
  it: frames handed to \<open>frame_xchg_start\<close> (with the id that call returned, 0 when it
  failed), events given to \<open>ops->handle_event\<close>, nl80211 commands, and calls into netdev,
  eapol, handshake and ell.
\<close>

datatype ap_action =
    Frame_xchg_start mgmt_frame frame_xchg_cb u32
  | Handle_event ap_event_type
  | Genl_send ap_nl_cmd
  | Genl_cancel u32
  | Timeout_remove
  | Timeout_modify
  | Timeout_create
  | Netdev_del_station mac_addr mmpdu_reason_code bool
  | Netdev_handshake_failed mac_addr mmpdu_reason_code
  | Eapol_sm_free mac_addr
  | Handshake_state_free mac_addr
  | Settings_free mac_addr
  | Idle_remove mac_addr

text \<open>
  \<open>struct ap_state\<close>, with the address of its netdev (\<open>netdev_get_address\<close>) and the trace
  of its actions.  \<open>wsc_pbc_timeout\<close> holds whether the timeout exists.  A NULL queue and
  an empty queue are the same to every function that reads one.

  Modelled from the spec: \<open>frame_xchgs\<close> is the state of the frame exchange module
  (frame-xchg.c, which is not among the sources), kept here as the trace is.  Section 5
  has the access point suspended "between response-frame dispatch and its TX-status
  notification": an exchange that \<open>frame_xchg_start\<close> accepted (it returned an id other
  than 0) stays in the list, with its callback and the callback's \<open>user_data\<close>, until the
  callback is called.
\<close>

record ap_state =
  netdev_address :: mac_addr
  config :: ap_config
  ciphers :: u32
  ap_group_cipher :: u32
  beacon_interval :: u32
  ap_rates :: "nat set"
  wsc_pbc_probes :: "ap_wsc_pbc_probe_record list"
  wsc_pbc_timeout :: bool
  wsc_dpid :: u16
  wsc_uuid_r :: "u8 list"
  last_aid :: u16
  sta_states :: "sta_state list"
  started :: bool
  trace :: "ap_action list"
  frame_xchgs :: "(u32 \<times> frame_xchg_cb \<times> user_data) list"

definition emit :: "ap_action \<Rightarrow> ap_state \<Rightarrow> ap_state" where
  "emit a ap = ap\<lparr>trace := trace ap @ [a]\<rparr>"

text \<open>\<open>l_queue_find(ap->sta_states, ap_sta_match_addr, a)\<close>.\<close>

definition ap_sta_find :: "ap_state \<Rightarrow> mac_addr \<Rightarrow> sta_state option" where
  "ap_sta_find ap a = find (\<lambda>sta. addr sta = a) (sta_states ap)"

text \<open>
  A write through the \<open>struct sta_state *\<close> that \<open>l_queue_find\<close> returned: the first
  station of the queue with that address.
\<close>

fun sta_list_update :: "mac_addr \<Rightarrow> (sta_state \<Rightarrow> sta_state) \<Rightarrow> sta_state list \<Rightarrow> sta_state list" where
  "sta_list_update a f [] = []"
| "sta_list_update a f (sta # stas) =
     (if addr sta = a then f sta # stas else sta # sta_list_update a f stas)"

definition sta_update :: "mac_addr \<Rightarrow> (sta_state \<Rightarrow> sta_state) \<Rightarrow> ap_state \<Rightarrow> ap_state" where
  "sta_update a f ap = ap\<lparr>sta_states := sta_list_update a f (sta_states ap)\<rparr>"

text \<open>\<open>l_queue_remove(sta->ap->sta_states, sta)\<close>, for the station found by address.\<close>

fun sta_list_remove :: "mac_addr \<Rightarrow> sta_state list \<Rightarrow> sta_state list" where
  "sta_list_remove a [] = []"
| "sta_list_remove a (sta # stas) =
     (if addr sta = a then stas else sta # sta_list_remove a stas)"

definition new_sta_state :: "mac_addr \<Rightarrow> sta_state" where
  "new_sta_state a =
     \<lparr>addr = a, associated = False, rsna = False, aid = 0, capability = 0,
      listen_interval = 0, rates = None, assoc_resp_cmd_id = 0, assoc_ies = None,
      assoc_rsne = None, sm = False, hs = False, gtk_query_cmd_id = 0,
      stop_handshake_work = False, wsc_settings = False, wsc_uuid_e = replicate 16 0,
      wsc_v2 = False\<rparr>"

subsection \<open>Authentication\<close>

definition MMPDU_AUTH_ALGO_OPEN_SYSTEM :: u16 where "MMPDU_AUTH_ALGO_OPEN_SYSTEM = 0"

text \<open>
  Modelled from the spec: \<open>frame_xchg_start\<close>, which returns \<open>xid\<close>; 0 is its failure,
  after which no callback comes.
\<close>

definition frame_xchg_start ::
  "mgmt_frame \<Rightarrow> frame_xchg_cb \<Rightarrow> user_data \<Rightarrow> u32 \<Rightarrow> ap_state \<Rightarrow> ap_state" where
  "frame_xchg_start frame cb ud xid ap =
     (let ap1 = emit (Frame_xchg_start frame cb xid) ap
      in if xid = 0 then ap1 else ap1\<lparr>frame_xchgs := frame_xchgs ap1 @ [(xid, cb, ud)]\<rparr>)"

text \<open>\<open>ap_send_mgmt_frame\<close>: the frame goes to \<open>frame_xchg_start\<close>.\<close>

definition ap_send_mgmt_frame ::
  "mgmt_frame \<Rightarrow> frame_xchg_cb \<Rightarrow> user_data \<Rightarrow> u32 \<Rightarrow> ap_state \<Rightarrow> ap_state" where
  "ap_send_mgmt_frame frame cb ud xid ap = frame_xchg_start frame cb ud xid ap"

definition ap_auth_reply :: "u32 \<Rightarrow> mac_addr \<Rightarrow> status_code \<Rightarrow> ap_state \<Rightarrow> ap_state" where
  "ap_auth_reply xid dest status ap =
     ap_send_mgmt_frame
       (Authentication_frame dest (netdev_address ap) (netdev_address ap)
          MMPDU_AUTH_ALGO_OPEN_SYSTEM 2 status)
       ap_auth_reply_cb User_data_NULL xid ap"

text \<open>The header of a received management frame, and the body of an Authentication frame.\<close>

record mmpdu_header =
  address_1 :: mac_addr
  address_2 :: mac_addr
  address_3 :: mac_addr

record mmpdu_authentication =
  algorithm :: u16
  transaction_sequence :: u16
  auth_status :: u16

definition ap_auth_cb :: "u32 \<Rightarrow> mmpdu_header \<Rightarrow> mmpdu_authentication \<Rightarrow> ap_state \<Rightarrow> ap_state" where
  "ap_auth_cb xid hdr auth ap =
     (let from = address_2 hdr; bssid = netdev_address ap in
      if address_1 hdr \<noteq> bssid \<or> address_3 hdr \<noteq> bssid then ap
      else if authorized_macs (config ap) \<noteq> [] \<and> from \<notin> set (authorized_macs (config ap))
      then ap_auth_reply xid from (STATUS_FAIL MMPDU_REASON_CODE_UNSPECIFIED) ap
      else if algorithm auth \<noteq> MMPDU_AUTH_ALGO_OPEN_SYSTEM
      then ap_auth_reply xid from (STATUS_FAIL MMPDU_REASON_CODE_UNSPECIFIED) ap
      else if transaction_sequence auth \<noteq> 1
      then ap_auth_reply xid from (STATUS_FAIL MMPDU_REASON_CODE_UNSPECIFIED) ap
      else
        (case ap_sta_find ap from of
           Some sta \<Rightarrow> ap_auth_reply xid from STATUS_SUCCESS ap
         | None \<Rightarrow>
             ap_auth_reply xid from STATUS_SUCCESS
               (ap\<lparr>sta_states := sta_states ap @ [new_sta_state from]\<rparr>)))"

subsection \<open>Station teardown\<close>

text \<open>\<open>ap_stop_handshake\<close>: what it frees, and the station afterwards.\<close>

definition ap_stop_handshake_actions :: "sta_state \<Rightarrow> ap_action list" where
  "ap_stop_handshake_actions sta =
     (if sm sta then [Eapol_sm_free (addr sta)] else []) @
     (if hs sta then [Handshake_state_free (addr sta)] else []) @
     (if wsc_settings sta then [Settings_free (addr sta)] else []) @
     (if stop_handshake_work sta then [Idle_remove (addr sta)] else [])"

definition ap_stop_handshake :: "mac_addr \<Rightarrow> ap_state \<Rightarrow> ap_state" where
  "ap_stop_handshake a ap =
     (case ap_sta_find ap a of
        None \<Rightarrow> ap
      | Some sta \<Rightarrow>
          sta_update a
            (\<lambda>s. s\<lparr>sm := False, hs := False, wsc_settings := False,
                   stop_handshake_work := False\<rparr>)
            (ap\<lparr>trace := trace ap @ ap_stop_handshake_actions sta\<rparr>))"

text \<open>
  \<open>ap_sta_free\<close> of a station that has left the queue: only its effects remain.  The
  two ids go to \<open>l_genl_family_cancel\<close>, also the id of the frame exchange of a
  (Re)Association Response: ap.c has no call that stops a frame exchange.  \<open>l_free(sta)\<close>
  leaves the \<open>user_data\<close> of the station's frame exchanges dangling.
\<close>

definition ap_sta_free_actions :: "sta_state \<Rightarrow> ap_action list" where
  "ap_sta_free_actions sta =
     (if assoc_resp_cmd_id sta \<noteq> 0 then [Genl_cancel (assoc_resp_cmd_id sta)] else []) @
     (if gtk_query_cmd_id sta \<noteq> 0 then [Genl_cancel (gtk_query_cmd_id sta)] else []) @
     ap_stop_handshake_actions sta"

definition user_data_free :: "mac_addr \<Rightarrow> user_data \<Rightarrow> user_data" where
  "user_data_free a ud = (if ud = User_data_sta a then User_data_freed else ud)"

definition ap_remove_sta :: "mac_addr \<Rightarrow> ap_state \<Rightarrow> ap_state" where
  "ap_remove_sta a ap =
     (case ap_sta_find ap a of
        None \<Rightarrow> ap
      | Some sta \<Rightarrow>
          ap\<lparr>sta_states := sta_list_remove a (sta_states ap),
             trace := trace ap @ ap_sta_free_actions sta,
             frame_xchgs := map (\<lambda>(xid, cb, ud). (xid, cb, user_data_free a ud))
                              (frame_xchgs ap)\<rparr>)"

definition ap_del_station :: "mac_addr \<Rightarrow> mmpdu_reason_code \<Rightarrow> bool \<Rightarrow> ap_state \<Rightarrow> ap_state" where
  "ap_del_station a reason disassociate ap =
     (case ap_sta_find ap a of
        None \<Rightarrow> ap
      | Some sta \<Rightarrow>
          (let send_event = rsna sta;
               ap1 = emit (Netdev_del_station a reason disassociate) ap;
               ap2 = sta_update a (\<lambda>s. s\<lparr>associated := False, rsna := False\<rparr>) ap1;
               ap3 = (if gtk_query_cmd_id sta \<noteq> 0
                      then sta_update a (\<lambda>s. s\<lparr>gtk_query_cmd_id := 0\<rparr>)
                             (emit (Genl_cancel (gtk_query_cmd_id sta)) ap2)
                      else ap2);
               ap4 = ap_stop_handshake a ap3
           in if send_event
              then emit (Handle_event (AP_EVENT_STATION_REMOVED a (Some reason))) ap4
              else ap4))"

definition ap_drop_rsna :: "mac_addr \<Rightarrow> ap_state \<Rightarrow> ap_state" where
  "ap_drop_rsna a ap =
     (case ap_sta_find ap a of
        None \<Rightarrow> ap
      | Some sta \<Rightarrow>
          (let ap1 = sta_update a (\<lambda>s. s\<lparr>rsna := False\<rparr>) ap;
               ap2 = emit (Genl_send (NL80211_CMD_SET_STATION_unauthorized a (aid sta))) ap1;
               ap3 = emit (Genl_send (NL80211_CMD_DEL_KEY a)) ap2;
               ap4 = ap_stop_handshake a ap3
           in emit (Handle_event (AP_EVENT_STATION_REMOVED a None)) ap4))"

subsection \<open>Beacon and Probe Response contents, WSC push-button mode\<close>

definition ap_set_rsn_info :: "ap_state \<Rightarrow> ie_rsn_info" where
  "ap_set_rsn_info ap =
     \<lparr>group_cipher = ap_group_cipher ap, pairwise_ciphers = ucast (ciphers ap),
      akm_suites = IE_RSN_AKM_SUITE_PSK, mfpr = False, mfpc = False,
      spp_a_msdu_capable = False, spp_a_msdu_required = False, num_pmkids = 0, pmkids = [],
      group_management_cipher = 0\<rparr>"

text \<open>The \<open>iov_len = ie[1] + 2\<close> bytes of an element that starts a buffer.\<close>

definition ie_span :: "u8 list \<Rightarrow> u8 list" where
  "ie_span buf = (case buf of t # l # rest \<Rightarrow> take (2 + unat l) buf | _ \<Rightarrow> buf)"

text \<open>
  The rates both \<open>ap_build_beacon_pr_head\<close> and \<open>ap_assoc_resp\<close> write: the first eight
  members of \<open>ap->rates\<close> in ascending order, the lowest one flagged as Basic Rate.
\<close>

definition ap_rates_ie :: "nat set \<Rightarrow> u8 list" where
  "ap_rates_ie S =
     (case take 8 (sorted_list_of_set S) of
        [] \<Rightarrow> []
      | r # rs \<Rightarrow> (of_nat r OR 0x80) # map of_nat rs)"

text \<open>
  \<open>ap_write_wsc_ie\<close> after its call of \<open>ap_process_wsc_probe_req\<close>: the WSC element of a
  Probe Response, a Beacon or a (Re)Association Response.  \<open>client\<close> is the client frame
  (its \<open>address_2\<close> and its IEs), NULL for a Beacon.  The device type, the device name and
  the authorized MACs, which are copied from the configuration into fields whose sizes
  wscutil.h fixes, are left out of the structures.

  In C this is one function with the next: for a Probe Response \<open>ap_write_wsc_ie\<close> first
  runs \<open>ap_process_wsc_probe_req\<close>, which may call \<open>ap_wsc_exit_pbc\<close>, which calls
  \<open>ap_update_beacon\<close>, which comes back to \<open>ap_write_wsc_ie\<close> for a Beacon.  The model
  unfolds that recursion: the functions named \<open>..._build\<close> are what the C functions do
  when the frame is not a Probe Response, where they change no state.
\<close>

definition ap_write_wsc_ie_build ::
  "ie_env \<Rightarrow> mpdu_management_subtype \<Rightarrow> (mac_addr \<times> u8 list) option \<Rightarrow> ap_state \<Rightarrow> u8 list" where
  "ap_write_wsc_ie_build env stype client ap =
     (let wsc_data =
        (case stype of
           MPDU_MANAGEMENT_SUBTYPE_PROBE_RESPONSE \<Rightarrow>
             wsc_build_probe_response env
               \<lparr>pr_version2 = True, pr_configured = True,
                pr_selected_registrar = wsc_pbc_timeout ap,
                pr_device_password_id = (if wsc_pbc_timeout ap then wsc_dpid ap else 0),
                pr_selected_reg_config_methods =
                  (if wsc_pbc_timeout ap then WSC_CONFIGURATION_METHOD_PUSH_BUTTON else 0),
                pr_uuid_e = wsc_uuid_r ap,
                pr_config_methods = WSC_CONFIGURATION_METHOD_PUSH_BUTTON\<rparr>
         | MPDU_MANAGEMENT_SUBTYPE_BEACON \<Rightarrow>
             wsc_build_beacon env
               \<lparr>b_version2 = True, b_configured = True,
                b_selected_registrar = wsc_pbc_timeout ap,
                b_device_password_id = (if wsc_pbc_timeout ap then wsc_dpid ap else 0),
                b_selected_reg_config_methods =
                  (if wsc_pbc_timeout ap then WSC_CONFIGURATION_METHOD_PUSH_BUTTON else 0)\<rparr>
         | MPDU_MANAGEMENT_SUBTYPE_AUTHENTICATION \<Rightarrow> None
         | _ \<Rightarrow>
             (case client of
                None \<Rightarrow> None
              | Some (from, ies) \<Rightarrow>
                  (case ap_sta_find ap from of
                     None \<Rightarrow> None
                   | Some sta \<Rightarrow>
                       if assoc_rsne sta \<noteq> None then None
                       else wsc_build_association_response env
                              \<lparr>resp_version2 = wsc_v2 sta\<rparr>)))
      in case wsc_data of
           None \<Rightarrow> []
         | Some d \<Rightarrow>
             (case ie_tlv_encapsulate_wsc_payload env d of None \<Rightarrow> [] | Some ie \<Rightarrow> ie))"

definition ap_write_extra_ies_build ::
  "ie_env \<Rightarrow> mpdu_management_subtype \<Rightarrow> (mac_addr \<times> u8 list) option \<Rightarrow> ap_state \<Rightarrow> u8 list" where
  "ap_write_extra_ies_build env stype client ap =
     ap_write_wsc_ie_build env stype client ap @
     (case ops_write_extra_ies env of None \<Rightarrow> [] | Some f \<Rightarrow> f stype)"

text \<open>\<open>ap_build_beacon_pr_tail\<close>; the empty list is its return value 0.\<close>

definition ap_build_beacon_pr_tail_build ::
  "ie_env \<Rightarrow> mpdu_management_subtype \<Rightarrow> (mac_addr \<times> u8 list) option \<Rightarrow> ap_state \<Rightarrow> u8 list" where
  "ap_build_beacon_pr_tail_build env stype client ap =
     (case ie_build_rsne env (ap_set_rsn_info ap) of
        (False, buf) \<Rightarrow> []
      | (True, buf) \<Rightarrow> ie_span buf @ ap_write_extra_ies_build env stype client ap)"

definition ap_update_beacon :: "ie_env \<Rightarrow> ap_state \<Rightarrow> ap_state" where
  "ap_update_beacon env ap =
     (if \<not> started ap then ap
      else
        (let tail = ap_build_beacon_pr_tail_build env MPDU_MANAGEMENT_SUBTYPE_BEACON None ap
         in if tail = [] then ap else emit (Genl_send (NL80211_CMD_SET_BEACON tail)) ap))"

text \<open>
  \<open>ap_wsc_exit_pbc\<close>.  \<open>l_timeout_remove\<close> runs the timeout's destroy callback,
  \<open>ap_wsc_pbc_timeout_destroy\<close>, which sets \<open>ap->wsc_pbc_timeout = NULL\<close>.
\<close>

definition ap_wsc_exit_pbc :: "ie_env \<Rightarrow> ap_state \<Rightarrow> ap_state" where
  "ap_wsc_exit_pbc env ap =
     (if \<not> wsc_pbc_timeout ap then ap
      else
        (let ap1 = (emit Timeout_remove ap)\<lparr>wsc_pbc_timeout := False\<rparr>;
             ap2 = ap1\<lparr>wsc_dpid := 0\<rparr>;
             ap3 = ap_update_beacon env ap2
         in emit (Handle_event AP_EVENT_PBC_MODE_EXIT) ap3))"

record ap_pbc_record_expiry_data =
  min_time :: u64
  expiry_mac :: mac_addr

definition ap_wsc_pbc_record_expire ::
  "ap_wsc_pbc_probe_record \<Rightarrow> ap_pbc_record_expiry_data \<Rightarrow> bool" where
  "ap_wsc_pbc_record_expire record' expiry_data =
     (\<not> (timestamp record' > min_time expiry_data \<and> mac record' \<noteq> expiry_mac expiry_data))"

definition AP_WSC_PBC_MONITOR_TIME :: u64 where "AP_WSC_PBC_MONITOR_TIME = 120"
definition AP_WSC_PBC_WALK_TIME :: u64 where "AP_WSC_PBC_WALK_TIME = 120"

text \<open>
  The loop at the end of \<open>ap_process_wsc_probe_req\<close>, over the entries of
  \<open>ap->sta_states\<close>.  An entry is passed over (\<open>continue\<close>) unless its station is
  associated, has no RSNE, and has the address of the first record and not the sender's.
  For such a station the body fails the handshake and calls \<open>ap_remove_sta(sta)\<close>, which
  takes the entry off the queue and frees it and the station; the loop then goes on with
  \<open>entry = entry->next\<close>, a read of the entry that was just freed.
\<close>

fun ap_interrupt_enrollees ::
  "mac_addr \<Rightarrow> mac_addr \<Rightarrow> sta_state list \<Rightarrow> ap_state \<Rightarrow> fault + ap_state" where
  "ap_interrupt_enrollees first_sta_addr from [] ap = Inr ap"
| "ap_interrupt_enrollees first_sta_addr from (sta # entries) ap =
     (if \<not> associated sta \<or> assoc_rsne sta \<noteq> None
      then ap_interrupt_enrollees first_sta_addr from entries ap
      else if addr sta \<noteq> first_sta_addr \<or> addr sta = from
      then ap_interrupt_enrollees first_sta_addr from entries ap
      else
        (let ap1 = (if hs sta
                    then sta_update (addr sta) (\<lambda>s. s\<lparr>sm := False\<rparr>)
                           (emit (Netdev_handshake_failed (addr sta)
                                    MMPDU_REASON_CODE_DISASSOC_AP_BUSY) ap)
                    else ap);
             ap2 = ap_remove_sta (addr sta) ap1
         in Inl Use_after_free))"

definition ap_process_wsc_probe_req ::
  "ie_env \<Rightarrow> u64 \<Rightarrow> mac_addr \<Rightarrow> u8 list \<Rightarrow> ap_state \<Rightarrow> fault + ap_state" where
  "ap_process_wsc_probe_req env now from wsc_data ap =
     (case wsc_parse_probe_request env wsc_data of
        None \<Rightarrow> Inr ap
      | Some req \<Rightarrow>
          if config_methods req AND WSC_CONFIGURATION_METHOD_PUSH_BUTTON = 0 then Inr ap
          else if device_password_id req \<noteq> WSC_DEVICE_PASSWORD_ID_PUSH_BUTTON then Inr ap
          else
            (let first_sta_addr =
                   (case wsc_pbc_probes ap of [] \<Rightarrow> 0 | r # rs \<Rightarrow> mac r);
                 expiry_data =
                   \<lparr>min_time = now - AP_WSC_PBC_MONITOR_TIME * 1000000, expiry_mac = from\<rparr>;
                 kept = filter (\<lambda>r. \<not> ap_wsc_pbc_record_expire r expiry_data)
                          (wsc_pbc_probes ap);
                 empty = (kept = []);
                 ap1 = ap\<lparr>wsc_pbc_probes :=
                            kept @ [\<lparr>mac = from, uuid_e = req_uuid_e req, timestamp = now\<rparr>]\<rparr>
             in if empty then Inr ap1
                else
                  (let ap2 = (if wsc_pbc_timeout ap1 then ap_wsc_exit_pbc env ap1 else ap1)
                   in ap_interrupt_enrollees first_sta_addr from (sta_states ap2) ap2)))"

text \<open>
  \<open>ap_write_wsc_ie\<close>, \<open>ap_write_extra_ies\<close> and \<open>ap_build_beacon_pr_tail\<close> with the call
  of \<open>ap_process_wsc_probe_req\<close>, which reads the clock (\<open>now\<close> is what \<open>l_time_now()\<close>
  returns).
\<close>

definition ap_write_wsc_ie ::
  "ie_env \<Rightarrow> u64 \<Rightarrow> mpdu_management_subtype \<Rightarrow> (mac_addr \<times> u8 list) option \<Rightarrow> ap_state
   \<Rightarrow> fault + ap_state \<times> u8 list" where
  "ap_write_wsc_ie env now stype client ap =
     (case (case (stype, client) of
              (MPDU_MANAGEMENT_SUBTYPE_PROBE_RESPONSE, Some (from, ies)) \<Rightarrow>
                (case ie_tlv_extract_wsc_payload env ies of
                   None \<Rightarrow> Inr ap
                 | Some wsc_data \<Rightarrow> ap_process_wsc_probe_req env now from wsc_data ap)
            | _ \<Rightarrow> Inr ap) of
        Inl f \<Rightarrow> Inl f
      | Inr ap1 \<Rightarrow> Inr (ap1, ap_write_wsc_ie_build env stype client ap1))"

definition ap_write_extra_ies ::
  "ie_env \<Rightarrow> u64 \<Rightarrow> mpdu_management_subtype \<Rightarrow> (mac_addr \<times> u8 list) option \<Rightarrow> ap_state
   \<Rightarrow> fault + ap_state \<times> u8 list" where
  "ap_write_extra_ies env now stype client ap =
     (case ap_write_wsc_ie env now stype client ap of
        Inl f \<Rightarrow> Inl f
      | Inr (ap1, wsc_ie) \<Rightarrow>
          Inr (ap1, wsc_ie @ (case ops_write_extra_ies env of None \<Rightarrow> [] | Some f \<Rightarrow> f stype)))"

definition ap_build_beacon_pr_tail ::
  "ie_env \<Rightarrow> u64 \<Rightarrow> mpdu_management_subtype \<Rightarrow> (mac_addr \<times> u8 list) option \<Rightarrow> ap_state
   \<Rightarrow> fault + ap_state \<times> u8 list" where
  "ap_build_beacon_pr_tail env now stype client ap =
     (case ie_build_rsne env (ap_set_rsn_info ap) of
        (False, buf) \<Rightarrow> Inr (ap, [])
      | (True, buf) \<Rightarrow>
          (case ap_write_extra_ies env now stype client ap of
             Inl f \<Rightarrow> Inl f
           | Inr (ap1, extra) \<Rightarrow> Inr (ap1, ie_span buf @ extra)))"

definition ap_push_button :: "ie_env \<Rightarrow> ap_state \<Rightarrow> ap_state \<times> bool" where
  "ap_push_button env ap =
     (if \<not> started ap then (ap, False)
      else if length (wsc_pbc_probes ap) > 1 then (ap, False)
      else if wsc_pbc_timeout ap then (emit Timeout_modify ap, True)
      else
        (ap_update_beacon env
           ((emit Timeout_create ap)
              \<lparr>wsc_pbc_timeout := True, wsc_dpid := WSC_DEVICE_PASSWORD_ID_PUSH_BUTTON\<rparr>),
         True))"

text \<open>\<open>ap_wsc_pbc_timeout_cb\<close>: the walk time has run out.\<close>

definition ap_wsc_pbc_timeout_cb :: "ie_env \<Rightarrow> ap_state \<Rightarrow> ap_state" where
  "ap_wsc_pbc_timeout_cb env ap = ap_wsc_exit_pbc env ap"

subsection \<open>(Re)association\<close>

definition IE_BSS_CAP_ESS :: u16 where "IE_BSS_CAP_ESS = 0x0001"
definition IE_BSS_CAP_PRIVACY :: u16 where "IE_BSS_CAP_PRIVACY = 0x0010"

text \<open>\<open>__builtin_popcount\<close>.\<close>

definition popcount :: "'a::len word \<Rightarrow> nat" where
  "popcount w = length (filter (bit w) [0..<LENGTH('a)])"

text \<open>
  \<open>ap_assoc_resp\<close>.  \<open>sta\<close> is the station the response is for (NULL when the sender has
  none), which is also the \<open>user_data\<close> of the callback; \<open>req\<close> is the request frame; the
  result of \<open>ap_send_mgmt_frame\<close> is \<open>xid\<close>.  Its call of \<open>ap_write_extra_ies\<close> is for a
  (Re)Association Response, where that function is \<open>ap_write_extra_ies_build\<close>.
\<close>

definition ap_assoc_resp ::
  "ie_env \<Rightarrow> u32 \<Rightarrow> mac_addr option \<Rightarrow> mac_addr \<Rightarrow> status_code \<Rightarrow> bool
   \<Rightarrow> mac_addr \<times> u8 list \<Rightarrow> frame_xchg_cb \<Rightarrow> ap_state \<Rightarrow> ap_state" where
  "ap_assoc_resp env xid sta dest status reassoc req callback ap =
     (let stype = (if reassoc then MPDU_MANAGEMENT_SUBTYPE_REASSOCIATION_RESPONSE
                   else MPDU_MANAGEMENT_SUBTYPE_ASSOCIATION_RESPONSE);
          aid_field = (case sta of
                         None \<Rightarrow> 0
                       | Some a \<Rightarrow>
                           (case ap_sta_find ap a of
                              None \<Rightarrow> 0 | Some s \<Rightarrow> aid s OR 0xc000));
          extra = ap_write_extra_ies_build env stype (Some req) ap
      in ap_send_mgmt_frame
           (Association_response reassoc dest (netdev_address ap) (netdev_address ap)
              (IE_BSS_CAP_ESS OR IE_BSS_CAP_PRIVACY) status aid_field
              (ap_rates_ie (ap_rates ap)) extra)
           callback (case sta of None \<Rightarrow> User_data_NULL | Some a \<Rightarrow> User_data_sta a)
           xid ap)"

text \<open>
  \<open>ap_parse_supported_rates\<close>: \<open>None\<close> is \<open>-EINVAL\<close>.  The set is created by
  \<open>l_uintset_new(108)\<close> on the first rates element.
\<close>

definition ap_parse_supported_rates ::
  "ie_env \<Rightarrow> u8 \<Rightarrow> u8 list \<Rightarrow> nat set option \<Rightarrow> nat set option" where
  "ap_parse_supported_rates env tag data set' =
     (if tag = IE_TYPE_SUPPORTED_RATES \<and> length data = 0 then None
      else Some
        ((case set' of None \<Rightarrow> {} | Some S \<Rightarrow> S) \<union>
         {r \<in> (\<lambda>b. unat (b AND 0x7f)) ` set (filter (\<lambda>b. b \<noteq> 0xff) data).
            r \<in> l_uintset_new_range env 108}))"

text \<open>
  \<open>ap_common_rates\<close>.  \<open>l_uintset_find_min\<close> of an empty set returns a value beyond the
  set's range, which no station's set contains.
\<close>

definition ap_common_rates :: "nat set \<Rightarrow> nat set \<Rightarrow> bool" where
  "ap_common_rates ap_rates' sta_rates = (ap_rates' \<noteq> {} \<and> Min ap_rates' \<in> sta_rates)"

text \<open>
  The loop of \<open>ap_assoc_reassoc\<close> over the request's elements.  The accumulator holds the
  locals \<open>ssid\<close>, \<open>rates\<close> and \<open>rsn\<close> (with the \<open>rsn_info\<close> parsed from it); \<open>Inl\<close> is
  the \<open>goto bad_frame\<close> with its reason.
\<close>

type_synonym assoc_locals = "u8 list option \<times> nat set option \<times> (u8 list \<times> ie_rsn_info) option"

fun ap_assoc_scan_ies ::
  "ie_env \<Rightarrow> bool \<Rightarrow> (u8 \<times> u8 list) list \<Rightarrow> assoc_locals \<Rightarrow> mmpdu_reason_code + assoc_locals" where
  "ap_assoc_scan_ies env have_wsc [] acc = Inr acc"
| "ap_assoc_scan_ies env have_wsc (e # es) (ssid', rates', rsn) =
     (if fst e = IE_TYPE_SSID
      then ap_assoc_scan_ies env have_wsc es (Some (snd e), rates', rsn)
      else if fst e = IE_TYPE_SUPPORTED_RATES \<or> fst e = IE_TYPE_EXTENDED_SUPPORTED_RATES
      then (case ap_parse_supported_rates env (fst e) (snd e) rates' of
              None \<Rightarrow> Inl MMPDU_REASON_CODE_INVALID_IE
            | Some S \<Rightarrow> ap_assoc_scan_ies env have_wsc es (ssid', Some S, rsn))
      else if fst e = IE_TYPE_RSN
      then (if have_wsc then ap_assoc_scan_ies env have_wsc es (ssid', rates', rsn)
            else (case ie_parse_rsne env (ie_raw e) of
                    None \<Rightarrow> Inl MMPDU_REASON_CODE_INVALID_IE
                  | Some rsn_info \<Rightarrow>
                      ap_assoc_scan_ies env have_wsc es (ssid', rates', Some (ie_raw e, rsn_info))))
      else ap_assoc_scan_ies env have_wsc es (ssid', rates', rsn))"

text \<open>The labels \<open>unsupported\<close> and \<open>bad_frame\<close> of \<open>ap_assoc_reassoc\<close>.\<close>

definition ap_assoc_reassoc_fail ::
  "ie_env \<Rightarrow> u32 \<Rightarrow> mac_addr \<Rightarrow> bool \<Rightarrow> u8 list \<Rightarrow> mmpdu_reason_code \<Rightarrow> ap_state \<Rightarrow> ap_state" where
  "ap_assoc_reassoc_fail env xid a reassoc ies err ap =
     (case ap_sta_find ap a of
        None \<Rightarrow> ap
      | Some sta \<Rightarrow>
          (let ap1 = (if rsna sta then ap_drop_rsna a ap
                      else if associated sta then ap_stop_handshake a ap
                      else ap)
           in ap_assoc_resp env xid (Some a) a (STATUS_FAIL err) reassoc (a, ies)
                ap_fail_assoc_resp_cb ap1))"

text \<open>The part of \<open>ap_assoc_reassoc\<close> from the comment \<open>802.11-2016 11.3.5.3 j)\<close> on.\<close>

definition ap_assoc_reassoc_ok ::
  "ie_env \<Rightarrow> u32 \<Rightarrow> mac_addr \<Rightarrow> bool \<Rightarrow> u16 \<Rightarrow> u16 \<Rightarrow> u8 list \<Rightarrow> nat set
   \<Rightarrow> u8 list option \<Rightarrow> ap_state \<Rightarrow> ap_state" where
  "ap_assoc_reassoc_ok env xid a reassoc cap li ies rates' rsn ap =
     (case ap_sta_find ap a of
        None \<Rightarrow> ap
      | Some sta \<Rightarrow>
          (let ap1 = (if rsna sta then ap_drop_rsna a ap
                      else if associated sta then ap_stop_handshake a ap
                      else ap);
               ap2 = (if \<not> associated sta
                      then sta_update a (\<lambda>s. s\<lparr>aid := last_aid ap1 + 1\<rparr>)
                             (ap1\<lparr>last_aid := last_aid ap1 + 1\<rparr>)
                      else ap1);
               ap3 = sta_update a
                       (\<lambda>s. s\<lparr>capability := cap, listen_interval := li, rates := Some rates',
                              assoc_ies := (if rsn \<noteq> None then Some ies else None),
                              assoc_rsne := rsn\<rparr>) ap2;
               ap4 = ap_assoc_resp env xid (Some a) a STATUS_SUCCESS reassoc (a, ies)
                       ap_success_assoc_resp_cb_ref ap3
           in sta_update a (\<lambda>s. s\<lparr>assoc_resp_cmd_id := xid\<rparr>) ap4))"

text \<open>
  \<open>ap_assoc_reassoc\<close> for the station \<open>l_queue_find\<close> gave its caller, which is the one
  with the sender's address \<open>a\<close>.
\<close>

definition ap_assoc_reassoc ::
  "ie_env \<Rightarrow> u32 \<Rightarrow> mac_addr \<Rightarrow> bool \<Rightarrow> u16 \<Rightarrow> u16 \<Rightarrow> u8 list \<Rightarrow> ap_state \<Rightarrow> ap_state" where
  "ap_assoc_reassoc env xid a reassoc cap li ies ap =
     (case ap_sta_find ap a of
        None \<Rightarrow> ap
      | Some sta \<Rightarrow>
        if assoc_resp_cmd_id sta \<noteq> 0 then ap
        else if reassoc \<and> \<not> associated sta
        then ap_assoc_reassoc_fail env xid a reassoc ies
               MMPDU_REASON_CODE_CLASS3_FRAME_FROM_NONASSOC_STA ap
        else
          (let wsc_data = ie_tlv_extract_wsc_payload env ies in
           case ap_assoc_scan_ies env (wsc_data \<noteq> None) (ie_tlv_iter ies) (None, None, None) of
             Inl err \<Rightarrow> ap_assoc_reassoc_fail env xid a reassoc ies err ap
           | Inr (None, rates', rsn) \<Rightarrow>
               ap_assoc_reassoc_fail env xid a reassoc ies MMPDU_REASON_CODE_INVALID_IE ap
           | Inr (Some ssid', None, rsn) \<Rightarrow>
               ap_assoc_reassoc_fail env xid a reassoc ies MMPDU_REASON_CODE_INVALID_IE ap
           | Inr (Some ssid', Some rates', rsn) \<Rightarrow>
               if (wsc_data = None \<and> rsn = None)
                  \<or> length ssid' \<noteq> strlen (ssid (config ap))
                  \<or> \<not> memcmp_eq ssid' (ssid (config ap)) (length ssid')
               then ap_assoc_reassoc_fail env xid a reassoc ies
                      MMPDU_REASON_CODE_INVALID_IE ap
               else if \<not> ap_common_rates (ap_rates ap) rates'
               then ap_assoc_reassoc_fail env xid a reassoc ies
                      MMPDU_REASON_CODE_UNSPECIFIED ap
               else
                 (case rsn of
                    None \<Rightarrow>
                      (case wsc_parse_association_request env (case_option [] id wsc_data) of
                         None \<Rightarrow>
                           ap_assoc_reassoc_fail env xid a reassoc ies
                             MMPDU_REASON_CODE_INVALID_IE ap
                       | Some wsc_req \<Rightarrow>
                           if request_type wsc_req \<noteq> WSC_REQUEST_TYPE_ENROLLEE_OPEN_8021X
                           then ap_assoc_reassoc_fail env xid a reassoc ies
                                  MMPDU_REASON_CODE_INVALID_IE ap
                           else if \<not> wsc_pbc_timeout ap
                           then ap_assoc_reassoc_fail env xid a reassoc ies
                                  MMPDU_REASON_CODE_UNSPECIFIED ap
                           else
                             (case wsc_pbc_probes ap of
                                [] \<Rightarrow>
                                  ap_assoc_reassoc_fail env xid a reassoc ies
                                    MMPDU_REASON_CODE_UNSPECIFIED ap
                              | record' # records \<Rightarrow>
                                  if a \<noteq> mac record'
                                  then ap_assoc_reassoc_fail env xid a reassoc ies
                                         MMPDU_REASON_CODE_UNSPECIFIED ap
                                  else
                                    ap_assoc_reassoc_ok env xid a reassoc cap li ies
                                      rates' None
                                      (ap_wsc_exit_pbc env
                                         (emit (Handle_event (AP_EVENT_REGISTRATION_START a))
                                            (sta_update a
                                               (\<lambda>s. s\<lparr>wsc_uuid_e := uuid_e record',
                                                      wsc_v2 := request_version2 wsc_req\<rparr>)
                                               ap)))))
                  | Some (rsne, rsn_info) \<Rightarrow>
                      if mfpr rsn_info \<and> spp_a_msdu_required rsn_info
                      then ap_assoc_reassoc_fail env xid a reassoc ies
                             MMPDU_REASON_CODE_UNSPECIFIED ap
                      else if popcount (pairwise_ciphers rsn_info) \<noteq> 1
                              \<or> ucast (pairwise_ciphers rsn_info) AND ciphers ap = 0
                      then ap_assoc_reassoc_fail env xid a reassoc ies
                             MMPDU_REASON_CODE_INVALID_PAIRWISE_CIPHER ap
                      else if akm_suites rsn_info \<noteq> IE_RSN_AKM_SUITE_PSK
                      then ap_assoc_reassoc_fail env xid a reassoc ies
                             MMPDU_REASON_CODE_INVALID_AKMP ap
                      else ap_assoc_reassoc_ok env xid a reassoc cap li ies rates'
                             (Some rsne) ap)))"

text \<open>The fixed fields and the elements of a (Re)Association Request.\<close>

record mmpdu_association_request =
  req_capability :: u16
  req_listen_interval :: u16
  req_ies :: "u8 list"

definition ap_assoc_req_cb ::
  "ie_env \<Rightarrow> u32 \<Rightarrow> mmpdu_header \<Rightarrow> mmpdu_association_request \<Rightarrow> ap_state \<Rightarrow> ap_state" where
  "ap_assoc_req_cb env xid hdr req ap =
     (let from = address_2 hdr; bssid = netdev_address ap in
      if address_1 hdr \<noteq> bssid \<or> address_3 hdr \<noteq> bssid then ap
      else
        (case ap_sta_find ap from of
           None \<Rightarrow>
             ap_assoc_resp env xid None from
               (STATUS_FAIL MMPDU_REASON_CODE_STA_REQ_ASSOC_WITHOUT_AUTH) False
               (from, req_ies req) ap_fail_assoc_resp_cb ap
         | Some sta \<Rightarrow>
             ap_assoc_reassoc env xid from False (req_capability req)
               (req_listen_interval req) (req_ies req) ap))"

definition ap_reassoc_req_cb ::
  "ie_env \<Rightarrow> u32 \<Rightarrow> mmpdu_header \<Rightarrow> mac_addr \<Rightarrow> mmpdu_association_request \<Rightarrow> ap_state \<Rightarrow> ap_state" where
  "ap_reassoc_req_cb env xid hdr current_ap_address req ap =
     (let from = address_2 hdr; bssid = netdev_address ap in
      if address_1 hdr \<noteq> bssid \<or> address_3 hdr \<noteq> bssid then ap
      else
        (case ap_sta_find ap from of
           None \<Rightarrow>
             ap_assoc_resp env xid None from
               (STATUS_FAIL MMPDU_REASON_CODE_STA_REQ_ASSOC_WITHOUT_AUTH) True
               (from, req_ies req) ap_fail_assoc_resp_cb ap
         | Some sta \<Rightarrow>
             if current_ap_address \<noteq> bssid
             then ap_assoc_resp env xid None from
                    (STATUS_FAIL MMPDU_REASON_CODE_UNSPECIFIED) True
                    (from, req_ies req) ap_fail_assoc_resp_cb ap
             else ap_assoc_reassoc env xid from True (req_capability req)
                    (req_listen_interval req) (req_ies req) ap))"

text \<open>
  \<open>ap_associate_sta\<close>, and \<open>ap_success_assoc_resp_cb\<close> with the \<open>err\<close> of the frame
  exchange and the station that is its \<open>user_data\<close>.
\<close>

definition ap_associate_sta :: "mac_addr \<Rightarrow> ap_state \<Rightarrow> ap_state" where
  "ap_associate_sta a ap =
     (case ap_sta_find ap a of
        None \<Rightarrow> ap
      | Some sta \<Rightarrow>
          emit (Genl_send (if associated sta then NL80211_CMD_SET_STATION_associated a (aid sta)
                           else NL80211_CMD_NEW_STATION a (aid sta)))
            (sta_update a (\<lambda>s. s\<lparr>associated := True, rsna := False\<rparr>) ap))"

definition ap_success_assoc_resp_cb :: "int \<Rightarrow> mac_addr \<Rightarrow> ap_state \<Rightarrow> ap_state" where
  "ap_success_assoc_resp_cb err a ap =
     (case ap_sta_find ap a of
        None \<Rightarrow> ap
      | Some sta \<Rightarrow>
          (let ap1 = sta_update a (\<lambda>s. s\<lparr>assoc_resp_cmd_id := 0\<rparr>) ap in
           if err \<noteq> 0
           then (if associated sta
                 then ap_del_station a MMPDU_REASON_CODE_UNSPECIFIED True ap1
                 else ap1)
           else ap_associate_sta a ap1))"

subsection \<open>Disassociation and Deauthentication\<close>

definition ap_disassoc_cb :: "mmpdu_header \<Rightarrow> u16 \<Rightarrow> ap_state \<Rightarrow> ap_state" where
  "ap_disassoc_cb hdr reason_code ap =
     (let bssid = netdev_address ap; from = address_2 hdr in
      if address_1 hdr \<noteq> bssid \<or> address_3 hdr \<noteq> bssid then ap
      else
        (case ap_sta_find ap from of
           None \<Rightarrow> ap
         | Some sta \<Rightarrow>
             (let ap1 = (if assoc_resp_cmd_id sta \<noteq> 0
                         then sta_update from (\<lambda>s. s\<lparr>assoc_resp_cmd_id := 0\<rparr>)
                                (emit (Genl_cancel (assoc_resp_cmd_id sta)) ap)
                         else ap)
              in if \<not> associated sta then ap1
                 else ap_del_station from (MMPDU_REASON_CODE_wire reason_code) True ap1)))"

text \<open>
  \<open>ap_deauth_cb\<close> takes the station off the queue, then runs \<open>ap_del_station\<close> and
  \<open>ap_sta_free\<close> on it.  Nothing reads the queue in between, so the model runs
  \<open>ap_del_station\<close> on the queued station and removes it afterwards.
\<close>

definition ap_deauth_cb :: "mmpdu_header \<Rightarrow> u16 \<Rightarrow> ap_state \<Rightarrow> ap_state" where
  "ap_deauth_cb hdr reason_code ap =
     (let bssid = netdev_address ap; from = address_2 hdr in
      if address_1 hdr \<noteq> bssid \<or> address_3 hdr \<noteq> bssid then ap
      else
        (case ap_sta_find ap from of
           None \<Rightarrow> ap
         | Some sta \<Rightarrow>
             ap_remove_sta from
               (ap_del_station from (MMPDU_REASON_CODE_wire reason_code) False ap)))"

subsection \<open>Probe Requests\<close>

text \<open>
  The element loop of \<open>ap_probe_req_cb\<close>: the locals \<open>ssid\<close>, \<open>ssid_list\<close> and
  \<open>dsss_channel\<close>; \<open>None\<close> is the \<open>return\<close> on a DSSS element of the wrong length.
\<close>

fun ap_probe_scan_ies ::
  "(u8 \<times> u8 list) list \<Rightarrow> u8 list option \<times> u8 list option \<times> u8
   \<Rightarrow> (u8 list option \<times> u8 list option \<times> u8) option" where
  "ap_probe_scan_ies [] acc = Some acc"
| "ap_probe_scan_ies (e # es) (ssid', ssid_list, dsss_channel) =
     (if fst e = IE_TYPE_SSID then ap_probe_scan_ies es (Some (snd e), ssid_list, dsss_channel)
      else if fst e = IE_TYPE_SSID_LIST
      then ap_probe_scan_ies es (ssid', Some (snd e), dsss_channel)
      else if fst e = IE_TYPE_DSSS_PARAMETER_SET
      then (case snd e of
              [c] \<Rightarrow> ap_probe_scan_ies es (ssid', ssid_list, c)
            | _ \<Rightarrow> None)
      else ap_probe_scan_ies es (ssid', ssid_list, dsss_channel))"

text \<open>The loop over an SSID List element; \<open>None\<close> is its \<open>return\<close>.\<close>

fun ap_probe_ssid_list_match :: "u8 list \<Rightarrow> (u8 \<times> u8 list) list \<Rightarrow> bool option" where
  "ap_probe_ssid_list_match cfg_ssid [] = Some False"
| "ap_probe_ssid_list_match cfg_ssid (e # es) =
     (if fst e \<noteq> IE_TYPE_SSID then None
      else if length (snd e) = strlen cfg_ssid \<and> memcmp_eq (snd e) cfg_ssid (length (snd e))
      then Some True
      else ap_probe_ssid_list_match cfg_ssid es)"

definition DIRECT_prefix :: "u8 list" where
  "DIRECT_prefix = [0x44, 0x49, 0x52, 0x45, 0x43, 0x54, 0x2d]"

definition ap_probe_req_cb ::
  "ie_env \<Rightarrow> u64 \<Rightarrow> u32 \<Rightarrow> mmpdu_header \<Rightarrow> u8 list \<Rightarrow> ap_state \<Rightarrow> fault + ap_state" where
  "ap_probe_req_cb env now xid hdr ies ap =
     (let bssid = netdev_address ap; cfg_ssid = ssid (config ap) in
      case ap_probe_scan_ies (ie_tlv_iter ies) (None, None, 0) of
        None \<Rightarrow> Inr ap
      | Some (ssid', ssid_list, dsss_channel) \<Rightarrow>
          if address_1 hdr \<noteq> bssid \<and> address_1 hdr \<noteq> - 1 then Inr ap
          else if address_3 hdr \<noteq> bssid \<and> address_3 hdr \<noteq> - 1 then Inr ap
          else
            (case (case ssid' of
                     None \<Rightarrow> Some True
                   | Some s \<Rightarrow>
                       if length s = 0 then Some True
                       else if length s = strlen cfg_ssid \<and> memcmp_eq s cfg_ssid (length s)
                       then Some True
                       else if length s = 7 \<and> memcmp_eq s DIRECT_prefix 7
                               \<and> memcmp_eq s (cfg_ssid @ [0]) 7
                       then Some True
                       else (case ssid_list of
                               None \<Rightarrow> Some False
                             | Some l \<Rightarrow> ap_probe_ssid_list_match cfg_ssid (ie_tlv_iter l))) of
               None \<Rightarrow> Inr ap
             | Some match \<Rightarrow>
                 if \<not> (match \<and> \<not> (dsss_channel \<noteq> 0 \<and> dsss_channel \<noteq> channel (config ap)))
                 then Inr ap
                 else
                   (case ap_build_beacon_pr_tail env now MPDU_MANAGEMENT_SUBTYPE_PROBE_RESPONSE
                           (Some (address_2 hdr, ies)) ap of
                      Inl f \<Rightarrow> Inl f
                    | Inr (ap1, tail) \<Rightarrow>
                        Inr (ap_send_mgmt_frame
                               (Probe_response (address_2 hdr) bssid bssid
                                  (ucast (beacon_interval ap))
                                  (IE_BSS_CAP_ESS OR IE_BSS_CAP_PRIVACY) cfg_ssid
                                  (ap_rates_ie (ap_rates ap)) (channel (config ap)) tail)
                               ap_probe_resp_cb User_data_NULL xid ap1))))"

subsection \<open>The access point as a machine\<close>

text \<open>
  Modelled from the spec: the end of a frame exchange.  The frame exchange module calls
  the callback of the exchange \<open>xid\<close> with the outcome \<open>err\<close> and the exchange's
  \<open>user_data\<close>, once.  \<open>ap_auth_reply_cb\<close>, \<open>ap_fail_assoc_resp_cb\<close> and
  \<open>ap_probe_resp_cb\<close> only write to the log.  \<open>ap_success_assoc_resp_cb\<close> starts with
  \<open>sta->ap\<close> and \<open>sta->assoc_resp_cmd_id = 0\<close> on its \<open>user_data\<close>.  Whether the
  \<open>l_genl_family_cancel\<close> of \<open>ap_sta_free\<close> and \<open>ap_disassoc_cb\<close> keeps the callback
  from coming is not in the sources; the model lets it come, which covers the runs in
  which it does not.
\<close>

definition frame_xchg_done :: "u32 \<Rightarrow> int \<Rightarrow> ap_state \<Rightarrow> fault + ap_state" where
  "frame_xchg_done xid err ap =
     (case find (\<lambda>x. fst x = xid) (frame_xchgs ap) of
        None \<Rightarrow> Inr ap
      | Some (i, cb, ud) \<Rightarrow>
          (let ap1 = ap\<lparr>frame_xchgs := remove1 (i, cb, ud) (frame_xchgs ap)\<rparr>
           in case cb of
                ap_success_assoc_resp_cb_ref \<Rightarrow>
                  (case ud of
                     User_data_sta a \<Rightarrow> Inr (ap_success_assoc_resp_cb err a ap1)
                   | User_data_NULL \<Rightarrow> Inl NULL_dereference
                   | User_data_freed \<Rightarrow> Inl Use_after_free)
              | _ \<Rightarrow> Inr ap1))"

text \<open>
  What reaches the access point from outside: the management frames it watches (with the
  clock reading \<open>l_time_now()\<close> and the id \<open>frame_xchg_start\<close> will return where the
  callback uses them), the end of a frame exchange, the push of the button and the end of
  the walk time.  A run ends at the first fault.
\<close>

datatype ap_input =
    Rx_authentication u32 mmpdu_header mmpdu_authentication
  | Rx_association_request u32 mmpdu_header mmpdu_association_request
  | Rx_reassociation_request u32 mmpdu_header mac_addr mmpdu_association_request
  | Rx_probe_request u64 u32 mmpdu_header "u8 list"
  | Rx_disassociation mmpdu_header u16
  | Rx_deauthentication mmpdu_header u16
  | Frame_xchg_done u32 int
  | Push_button
  | Pbc_walk_time_over

fun ap_step :: "ie_env \<Rightarrow> ap_input \<Rightarrow> ap_state \<Rightarrow> fault + ap_state" where
  "ap_step env (Rx_authentication xid hdr auth) ap = Inr (ap_auth_cb xid hdr auth ap)"
| "ap_step env (Rx_association_request xid hdr req) ap = Inr (ap_assoc_req_cb env xid hdr req ap)"
| "ap_step env (Rx_reassociation_request xid hdr cur req) ap =
     Inr (ap_reassoc_req_cb env xid hdr cur req ap)"
| "ap_step env (Rx_probe_request now xid hdr ies) ap = ap_probe_req_cb env now xid hdr ies ap"
| "ap_step env (Rx_disassociation hdr reason) ap = Inr (ap_disassoc_cb hdr reason ap)"
| "ap_step env (Rx_deauthentication hdr reason) ap = Inr (ap_deauth_cb hdr reason ap)"
| "ap_step env (Frame_xchg_done xid err) ap = frame_xchg_done xid err ap"
| "ap_step env Push_button ap = Inr (fst (ap_push_button env ap))"
| "ap_step env Pbc_walk_time_over ap = Inr (ap_wsc_pbc_timeout_cb env ap)"

fun ap_run :: "ie_env \<Rightarrow> ap_input list \<Rightarrow> ap_state \<Rightarrow> fault + ap_state" where
  "ap_run env [] ap = Inr ap"
| "ap_run env (i # inputs) ap =
     (case ap_step env i ap of
        Inl f \<Rightarrow> Inl f
      | Inr ap1 \<Rightarrow> ap_run env inputs ap1)"

text \<open>
  The access point after \<open>ap_start\<close> and \<open>ap_start_cb\<close>: started, no station, no probe
  record, \<open>last_aid = 0\<close> (the structure comes zeroed from \<open>l_new\<close>).
\<close>

definition ap_started ::
  "mac_addr \<Rightarrow> ap_config \<Rightarrow> u32 \<Rightarrow> u32 \<Rightarrow> nat set \<Rightarrow> u8 list \<Rightarrow> ap_state" where
  "ap_started own_addr cfg ciphers' group_cipher' rates' uuid_r =
     \<lparr>netdev_address = own_addr, config = cfg, ciphers = ciphers',
      ap_group_cipher = group_cipher',
      beacon_interval = 100, ap_rates = rates', wsc_pbc_probes = [], wsc_pbc_timeout = False,
      wsc_dpid = 0, wsc_uuid_r = uuid_r, last_aid = 0, sta_states = [], started = True,
      trace = [], frame_xchgs = []\<rparr>"

subsection \<open>Concrete access points and frames\<close>

text \<open>
  The access point of scenario S6: SSID "Net", channel 6, CCMP, the CCK rates of
  \<open>ap_start\<close>, and the single authorized MAC 02:00:00:00:00:01.  Its own address is
  02:00:00:00:00:aa.  \<open>open_ap\<close> is the same access point without an allow-list.
\<close>

definition s6_config :: ap_config where
  "s6_config = \<lparr>ssid = [0x4e, 0x65, 0x74], channel = 6,
                 authorized_macs = [0x020000000001], wsc_name = None\<rparr>"

definition s6_ap :: ap_state where
  "s6_ap = ap_started 0x0200000000aa s6_config 8 8 {2, 11, 22} (replicate 16 0)"

definition open_config :: ap_config where
  "open_config = \<lparr>ssid = [0x4e, 0x65, 0x74], channel = 6, authorized_macs = [],
                   wsc_name = None\<rparr>"

definition open_ap :: ap_state where
  "open_ap = ap_started 0x0200000000aa open_config 8 8 {2, 11, 22} (replicate 16 0)"

definition open_auth :: mmpdu_authentication where
  "open_auth = \<lparr>algorithm = 0, transaction_sequence = 1, auth_status = 0\<rparr>"

definition hdr_to :: "mac_addr \<Rightarrow> mac_addr \<Rightarrow> mac_addr \<Rightarrow> mmpdu_header" where
  "hdr_to da sa bssid = \<lparr>address_1 = da, address_2 = sa, address_3 = bssid\<rparr>"

subsection \<open>Observations\<close>

text \<open>
  The status of the (Re)Association Response the access point handed to the frame exchange
  as its last action, if its last action was that.
\<close>

definition last_assoc_status :: "ap_state \<Rightarrow> status_code option" where
  "last_assoc_status ap =
     (case rev (trace ap) of
        Frame_xchg_start (Association_response re da sa bss cap st aidf rs ex) cb xid # acts
          \<Rightarrow> Some st
      | _ \<Rightarrow> None)"



definition rates_of :: "ie_env \<Rightarrow> u8 list \<Rightarrow> nat set" where
  "rates_of env d =
     {r \<in> (\<lambda>b. unat (b AND 0x7f)) ` set (filter (\<lambda>b. b \<noteq> 0xff) d).
        r \<in> l_uintset_new_range env 108}"


subsection \<open>Sample elements and an instance of the parameters\<close>

text \<open>
  Sample elements.  \<open>ssid_net\<close> is the SSID "Net", \<open>rates_cck\<close> the rates 1, 5.5 and
  11 Mb/s (all marked basic).  The RSNEs are version 1 with group cipher CCMP:
  \<open>rsne_ccmp_psk\<close> has pairwise CCMP and AKM PSK; \<open>rsne_ccmp_8021x\<close> pairwise CCMP and AKM
  802.1X; \<open>rsne_two_ciphers_mfpr_spp\<close> the pairwise list CCMP, TKIP, AKM PSK and the
  capability bits MFPR, MFPC, SPP A-MSDU capable and SPP A-MSDU required.
\<close>

definition ssid_net :: "u8 list" where
  "ssid_net = [0, 3, 0x4e, 0x65, 0x74]"


definition rsne_ccmp_psk :: "u8 list" where
  "rsne_ccmp_psk =
     [0x30, 0x14, 0x01, 0x00, 0x00, 0x0f, 0xac, 0x04, 0x01, 0x00, 0x00, 0x0f, 0xac, 0x04,
      0x01, 0x00, 0x00, 0x0f, 0xac, 0x02, 0x00, 0x00]"

definition rsne_ccmp_8021x :: "u8 list" where
  "rsne_ccmp_8021x =
     [0x30, 0x14, 0x01, 0x00, 0x00, 0x0f, 0xac, 0x04, 0x01, 0x00, 0x00, 0x0f, 0xac, 0x04,
      0x01, 0x00, 0x00, 0x0f, 0xac, 0x01, 0x00, 0x00]"

definition rsne_two_ciphers_mfpr_spp :: "u8 list" where
  "rsne_two_ciphers_mfpr_spp =
     [0x30, 0x18, 0x01, 0x00, 0x00, 0x0f, 0xac, 0x04, 0x02, 0x00, 0x00, 0x0f, 0xac, 0x04,
      0x00, 0x0f, 0xac, 0x02, 0x01, 0x00, 0x00, 0x0f, 0xac, 0x02, 0xc0, 0x0c]"




definition sample_rsn_info :: "u16 \<Rightarrow> u16 \<Rightarrow> bool \<Rightarrow> ie_rsn_info" where
  "sample_rsn_info pw akm flags =
     \<lparr>group_cipher = 8, pairwise_ciphers = pw, akm_suites = akm, mfpr = flags,
      mfpc = flags, spp_a_msdu_capable = flags, spp_a_msdu_required = flags,
      num_pmkids = 0, pmkids = [], group_management_cipher = 0\<rparr>"

text \<open>
  A WSC element (vendor specific, OUI 00:50:f2, type 4) whose payload is the Request Type
  attribute "Enrollee, open 802.1X", and one whose payload is the Device Password ID
  attribute "PushButton".
\<close>

definition wsc_assoc_payload :: "u8 list" where
  "wsc_assoc_payload = [0x10, 0x3a, 0x00, 0x01, 0x01]"


definition wsc_probe_payload :: "u8 list" where
  "wsc_probe_payload = [0x10, 0x12, 0x00, 0x02, 0x00, 0x04]"

definition wsc_probe_ie :: "u8 list" where
  "wsc_probe_ie = [0xdd, 0x0a, 0x00, 0x50, 0xf2, 0x04] @ wsc_probe_payload"

text \<open>
  An instance of the functions the model takes as parameters, for evaluating it: parsers
  that know the sample elements and read them as described above, builders that write
  fixed bytes, sets of \<open>l_uintset_new(n)\<close> that hold 1 to n, and no \<open>write_extra_ies\<close>
  callback.
\<close>

definition sample_env :: ie_env where
  "sample_env =
     \<lparr>ie_parse_rsne =
        (\<lambda>e. if e = rsne_ccmp_psk then Some (sample_rsn_info 8 2 False)
             else if e = rsne_ccmp_8021x then Some (sample_rsn_info 8 1 False)
             else if e = rsne_two_ciphers_mfpr_spp then Some (sample_rsn_info 12 2 True)
             else None),
      ie_build_rsne = (\<lambda>info. (True, rsne_ccmp_psk)),
      ie_parse_fast_bss_transition = (\<lambda>e. None),
      ie_build_fast_bss_transition = (\<lambda>info. (True, [0x37, 0x00])),
      ie_tlv_extract_wsc_payload =
        (\<lambda>ies. case find (\<lambda>e. fst e = 0xdd \<and> take 4 (snd e) = [0x00, 0x50, 0xf2, 0x04])
                       (ie_tlv_iter ies) of
                 None \<Rightarrow> None
               | Some e \<Rightarrow> Some (drop 4 (snd e))),
      ie_tlv_encapsulate_wsc_payload =
        (\<lambda>d. Some ([0xdd, of_nat (length d + 4), 0x00, 0x50, 0xf2, 0x04] @ d)),
      wsc_parse_probe_request =
        (\<lambda>d. if d = wsc_probe_payload
             then Some \<lparr>config_methods = 0x0080, device_password_id = 0x0004,
                        req_uuid_e = replicate 16 0x11\<rparr>
             else None),
      wsc_parse_association_request =
        (\<lambda>d. if d = wsc_assoc_payload
             then Some \<lparr>request_version2 = True, request_type = 0x01\<rparr>
             else None),
      wsc_build_probe_response =
        (\<lambda>pr. Some [if pr_selected_registrar pr then 1 else 0]),
      wsc_build_beacon = (\<lambda>b. Some [if b_selected_registrar b then 1 else 0]),
      wsc_build_association_response = (\<lambda>r. Some []),
      l_uintset_new_range = (\<lambda>n. {1..n}),
      ops_write_extra_ies = None\<rparr>"

text \<open>
  \<open>open_ap\<close> after the Authentication of 02:00:00:00:00:02, and (Re)Association Requests
  from that station.
\<close>

definition sta2 :: mac_addr where "sta2 = 0x020000000002"
definition sta3 :: mac_addr where "sta3 = 0x020000000003"
definition own_address :: mac_addr where "own_address = 0x0200000000aa"



subsection \<open>The AID bookkeeping of the station list\<close>

text \<open>
  The invariant of the AID bookkeeping.  An AID of 0 is that of a station that was never
  given one (\<open>l_new\<close> zeroes the structure).  For a station: its AID is at most
  \<open>last_aid\<close>, and if it is associated or awaits the acknowledgement of a success
  response, its AID is not 0.  For the list: no two stations share an AID other than 0.
  For the frame exchanges: one that will call \<open>ap_success_assoc_resp_cb\<close> on a station
  that has not been freed has a station of the list with an AID other than 0.
\<close>

definition sta_aid_ok :: "u16 \<Rightarrow> sta_state \<Rightarrow> bool" where
  "sta_aid_ok L sta =
     (aid sta \<le> L \<and> (associated sta \<longrightarrow> aid sta \<noteq> 0)
      \<and> (assoc_resp_cmd_id sta \<noteq> 0 \<longrightarrow> aid sta \<noteq> 0))"

definition stas_inv :: "u16 \<Rightarrow> sta_state list \<Rightarrow> bool" where
  "stas_inv L stas =
     (distinct (filter (\<lambda>i. i \<noteq> 0) (map aid stas)) \<and> (\<forall>sta \<in> set stas. sta_aid_ok L sta))"

definition has_aid :: "sta_state list \<Rightarrow> mac_addr \<Rightarrow> bool" where
  "has_aid stas a = (case find (\<lambda>s. addr s = a) stas of None \<Rightarrow> False | Some sta \<Rightarrow> aid sta \<noteq> 0)"

definition xchgs_inv :: "sta_state list \<Rightarrow> (u32 \<times> frame_xchg_cb \<times> user_data) list \<Rightarrow> bool" where
  "xchgs_inv stas xs =
     (\<forall>x \<in> set xs. \<forall>a. snd x = (ap_success_assoc_resp_cb_ref, User_data_sta a) \<longrightarrow> has_aid stas a)"












text \<open>
  A PBC Probe Request (SSID "Net" and the WSC element with the Device Password ID
  "PushButton") from the station \<open>a\<close>, and the inputs of a session overlap: the push of
  the button, then such a request from 02:00:00:00:00:02 at the time \<open>now\<close> (in
  microseconds) and one from 02:00:00:00:00:03 half a second later.
\<close>

text \<open>
  \<open>pbc_ap t\<close> is \<open>open_ap\<close> in active PBC mode with the record of a PBC Probe Request
  that 02:00:00:00:00:02 sent at the time \<open>t\<close>, and \<open>wsc_enrollee\<close> that station once
  it is associated for a WSC registration (without RSNE).
\<close>

definition pbc_ap :: "u64 \<Rightarrow> ap_state" where
  "pbc_ap t =
     open_ap\<lparr>wsc_pbc_timeout := True, wsc_dpid := WSC_DEVICE_PASSWORD_ID_PUSH_BUTTON,
             wsc_pbc_probes := [\<lparr>mac = sta2, uuid_e = replicate 16 0x11, timestamp = t\<rparr>]\<rparr>"

definition wsc_enrollee :: sta_state where
  "wsc_enrollee = (new_sta_state sta2)\<lparr>associated := True, aid := 1, rates := Some {2, 11, 22}\<rparr>"

definition probe_from :: "mac_addr \<Rightarrow> u64 \<Rightarrow> u32 \<Rightarrow> ap_input" where
  "probe_from a now xid =
     Rx_probe_request now xid (hdr_to own_address a own_address) (ssid_net @ wsc_probe_ie)"

definition pbc_overlap :: "u64 \<Rightarrow> ap_input list" where
  "pbc_overlap now = [Push_button, probe_from sta2 now 9, probe_from sta3 (now + 500000) 10]"

section \<open>The station (netdev.c)\<close>

subsection \<open>State\<close>

text \<open>
  \<open>enum netdev_result\<close> and the members of \<open>enum netdev_event\<close> that the functions below
  pass to the event filter (netdev.h).
\<close>

datatype netdev_result =
    NETDEV_RESULT_OK
  | NETDEV_RESULT_AUTHENTICATION_FAILED
  | NETDEV_RESULT_ASSOCIATION_FAILED
  | NETDEV_RESULT_HANDSHAKE_FAILED
  | NETDEV_RESULT_KEY_SETTING_FAILED
  | NETDEV_RESULT_ABORTED

datatype netdev_event =
    NETDEV_EVENT_4WAY_HANDSHAKE
  | NETDEV_EVENT_SETTING_KEYS
  | NETDEV_EVENT_DISCONNECT_BY_AP
  | NETDEV_EVENT_DISCONNECT_BY_SME

text \<open>
  The fields of \<open>struct handshake_state\<close> (handshake.h) that netdev.c reads or writes,
  under their C names with the prefix \<open>hs_\<close>.  A pointer field is an option, \<open>None\<close> for
  NULL.  A stored element (\<open>own_ie\<close>, \<open>ap_ie\<close>, \<open>mde\<close>, \<open>fte\<close>) is held with its two
  header bytes.
\<close>

record handshake_state =
  hs_aa :: mac_addr
  hs_own_ie :: "u8 list option"
  hs_ap_ie :: "u8 list option"
  hs_mde :: "u8 list option"
  hs_fte :: "u8 list option"
  hs_pmk_r0_name :: "u8 list"
  hs_pmk_r1_name :: "u8 list"
  hs_r0khid :: "u8 list"
  hs_r0khid_len :: nat
  hs_r1khid :: "u8 list"
  hs_anonce :: "u8 list"
  hs_snonce :: "u8 list"
  hs_ssid :: "u8 list"

text \<open>
  The functions of handshake.c, ft.c, crypto.c and ie.c that netdev.c calls, added to the
  parameters of the model.
  \<^item> \<open>handshake_util_ap_ie_matches rsne ap_ie is_wpa\<close>.
  \<^item> \<open>ft_calculate_fte_mic hs seq rsne fte\<close>: the MIC, \<open>None\<close> when it returns false.
  \<^item> \<open>handshake_decode_fte_key hs wrapped len\<close>: the key, \<open>None\<close> when it returns false.
  \<^item> \<open>crypto_cipher_key_len cipher\<close>.
  \<^item> \<open>handshake_state_new_snonce hs\<close>: the SNonce it draws.
\<close>

record netdev_env = ie_env +
  handshake_util_ap_ie_matches :: "u8 list \<Rightarrow> u8 list option \<Rightarrow> bool \<Rightarrow> bool"
  ft_calculate_fte_mic ::
    "handshake_state \<Rightarrow> nat \<Rightarrow> u8 list option \<Rightarrow> u8 list \<Rightarrow> u8 list option"
  handshake_decode_fte_key :: "handshake_state \<Rightarrow> u8 list \<Rightarrow> nat \<Rightarrow> u8 list option"
  crypto_cipher_key_len :: "u32 \<Rightarrow> nat"
  handshake_state_new_snonce :: "handshake_state \<Rightarrow> u8 list"

text \<open>
  The nl80211 commands netdev.c builds here, by the attributes the properties below read.
  There is one netdev, so \<open>NL80211_ATTR_IFINDEX\<close> is left out; so are the cipher, AKM,
  WPA version, MFP and control port attributes of the FT Associate command and the flags
  of SET_STATION (always AUTHORIZED).  \<open>NL80211_ATTR_IE\<close> is the list of the buffers of the
  \<open>iovec\<close>.
\<close>

datatype nl80211_cmd =
    NL80211_CMD_DEAUTHENTICATE mmpdu_reason_code mac_addr
      \<comment> \<open>reason code, MAC\<close>
  | NL80211_CMD_NEW_KEY_pairwise u32 mac_addr "u8 list"
      \<comment> \<open>cipher, MAC, key data\<close>
  | NL80211_CMD_SET_KEY_pairwise
  | NL80211_CMD_NEW_KEY_group u32 u8 "u8 list" "u8 list"
      \<comment> \<open>cipher, key index, key data, key sequence\<close>
  | NL80211_CMD_SET_STATION_authorized mac_addr
  | NL80211_CMD_AUTHENTICATE u32 mac_addr "u8 list" "u8 list list"
      \<comment> \<open>frequency, MAC, SSID, IEs (auth type FT)\<close>
  | NL80211_CMD_ASSOCIATE u32 mac_addr mac_addr "u8 list" "u8 list list"
      \<comment> \<open>frequency, MAC, previous BSSID, SSID, IEs\<close>

text \<open>The callbacks netdev.c gives to \<open>l_genl_family_send\<close>.\<close>

datatype l_genl_msg_func =
    Cb_netdev_connect_failed
  | Cb_netdev_cmd_deauthenticate_cb
  | Cb_netdev_set_station_cb
  | Cb_netdev_new_group_key_cb
  | Cb_netdev_new_group_management_key_cb
  | Cb_netdev_new_pairwise_key_cb
  | Cb_netdev_set_pairwise_key_cb
  | Cb_netdev_cmd_authenticate_ft_cb

text \<open>
  What netdev.c does to the world outside \<open>struct netdev\<close>, in the order it does it:
  nl80211 requests (with the id \<open>l_genl_family_send\<close> returned, 0 when it failed) and
  their cancellation, the caller's callbacks (the neighbor report callback called with
  \<open>-ENOTCONN\<close>, together with the removal of its timeout), the RTM_SETLINK request of
  \<open>netdev_set_linkmode_and_operstate\<close> (always with \<open>netdev_operstate_cb\<close> here), and calls
  into eapol and handshake, which are not followed further.
\<close>

datatype netdev_action =
    L_genl_family_send nl80211_cmd l_genl_msg_func u32
  | L_genl_family_cancel u32
  | Connect_cb netdev_result
  | Event_filter netdev_event
  | Disconnect_cb bool
  | Neighbor_report_cb_ENOTCONN
  | Netdev_eapol_sm_free
  | Netdev_eapol_sm_new
  | Netdev_eapol_start
  | Netdev_handshake_state_free
  | Handshake_state_install_ptk
  | Handshake_state_install_gtk u8 "u8 list" "u8 list"
  | Handshake_state_install_igtk u16 "u8 list" "u8 list"
  | Set_linkmode_and_operstate u8 u8

text \<open>
  \<open>struct netdev\<close>: the fields of a connection.  A callback pointer or \<open>sm\<close> is held as
  whether it is set (\<open>sm\<close> is \<open>netdev_sm\<close> here), \<open>user_data\<close> as an opaque number.  Two
  fields belong to the model: \<open>genl_pending\<close>, the requests of this netdev that nl80211
  holds (those sent, neither answered nor cancelled), and \<open>sta_trace\<close>, what the netdev
  has done.
\<close>

record netdev =
  connect_cb :: bool
  event_filter :: bool
  disconnect_cb :: bool
  neighbor_report_cb :: bool
  user_data :: "nat option"
  netdev_sm :: bool
  handshake :: "handshake_state option"
  pairwise_new_key_cmd_id :: u32
  pairwise_set_key_cmd_id :: u32
  group_new_key_cmd_id :: u32
  group_management_new_key_cmd_id :: u32
  connect_cmd_id :: u32
  disconnect_cmd_id :: u32
  result :: netdev_result
  prev_bssid :: mac_addr
  frequency :: u32
  connected :: bool
  operational :: bool
  rekey_offload_support :: bool
  in_ft :: bool
  genl_pending :: "(u32 \<times> nl80211_cmd \<times> l_genl_msg_func) list"
  sta_trace :: "netdev_action list"

definition sta_emit :: "netdev_action \<Rightarrow> netdev \<Rightarrow> netdev" where
  "sta_emit a nd = nd\<lparr>sta_trace := sta_trace nd @ [a]\<rparr>"

text \<open>
  \<open>l_genl_family_send(nl80211, msg, cb, netdev, NULL)\<close> returning \<open>cmd_id\<close>, and
  \<open>l_genl_family_cancel(nl80211, cmd_id)\<close>.  A request that was given the id 0 was not sent.
\<close>

definition l_genl_family_send :: "nl80211_cmd \<Rightarrow> l_genl_msg_func \<Rightarrow> u32 \<Rightarrow> netdev \<Rightarrow> netdev" where
  "l_genl_family_send msg cb cmd_id nd =
     sta_emit (L_genl_family_send msg cb cmd_id)
       (if cmd_id = 0 then nd else nd\<lparr>genl_pending := genl_pending nd @ [(cmd_id, msg, cb)]\<rparr>)"

definition l_genl_family_cancel :: "u32 \<Rightarrow> netdev \<Rightarrow> netdev" where
  "l_genl_family_cancel cmd_id nd =
     sta_emit (L_genl_family_cancel cmd_id)
       (nd\<lparr>genl_pending := filter (\<lambda>p. fst p \<noteq> cmd_id) (genl_pending nd)\<rparr>)"

definition ENOTCONN :: int where "ENOTCONN = 107"
definition EINVAL :: int where "EINVAL = 22"
definition EIO :: int where "EIO = 5"

definition IF_OPER_UP :: u8 where "IF_OPER_UP = 6"

subsection \<open>The end of a connection\<close>

text \<open>
  The statement \<open>if (netdev->x) { l_genl_family_cancel(nl80211, netdev->x); netdev->x = 0; }\<close>
  for a field \<open>x\<close>, given by its reader and its writer.
\<close>

definition genl_cancel_field ::
  "(netdev \<Rightarrow> u32) \<Rightarrow> (u32 \<Rightarrow> netdev \<Rightarrow> netdev) \<Rightarrow> netdev \<Rightarrow> netdev" where
  "genl_cancel_field field set_field nd =
     (if field nd \<noteq> 0 then set_field 0 (l_genl_family_cancel (field nd) nd) else nd)"

definition netdev_connect_free :: "netdev \<Rightarrow> netdev" where
  "netdev_connect_free nd =
     (let nd1 = (if netdev_sm nd then (sta_emit Netdev_eapol_sm_free nd)\<lparr>netdev_sm := False\<rparr>
                 else nd);
          nd2 = (if handshake nd1 \<noteq> None
                 then (sta_emit Netdev_handshake_state_free nd1)\<lparr>handshake := None\<rparr>
                 else nd1);
          nd3 = (if neighbor_report_cb nd2
                 then (sta_emit Neighbor_report_cb_ENOTCONN nd2)\<lparr>neighbor_report_cb := False\<rparr>
                 else nd2);
          nd4 = nd3\<lparr>operational := False, connected := False, connect_cb := False,
                    event_filter := False, user_data := None, result := NETDEV_RESULT_OK,
                    in_ft := False\<rparr>;
          nd5 = genl_cancel_field pairwise_new_key_cmd_id
                  (\<lambda>v n. n\<lparr>pairwise_new_key_cmd_id := v\<rparr>) nd4;
          nd6 = genl_cancel_field pairwise_set_key_cmd_id
                  (\<lambda>v n. n\<lparr>pairwise_set_key_cmd_id := v\<rparr>) nd5;
          nd7 = genl_cancel_field group_new_key_cmd_id
                  (\<lambda>v n. n\<lparr>group_new_key_cmd_id := v\<rparr>) nd6;
          nd8 = genl_cancel_field group_management_new_key_cmd_id
                  (\<lambda>v n. n\<lparr>group_management_new_key_cmd_id := v\<rparr>) nd7
      in if connect_cmd_id nd8 \<noteq> 0
         then genl_cancel_field connect_cmd_id (\<lambda>v n. n\<lparr>connect_cmd_id := v\<rparr>) nd8
         else genl_cancel_field disconnect_cmd_id (\<lambda>v n. n\<lparr>disconnect_cmd_id := v\<rparr>) nd8)"

definition netdev_connect_failed :: "netdev \<Rightarrow> netdev" where
  "netdev_connect_failed nd =
     (let connect_cb' = connect_cb nd; event_filter' = event_filter nd; result' = result nd;
          nd1 = netdev_connect_free (nd\<lparr>disconnect_cmd_id := 0\<rparr>)
      in if connect_cb' then sta_emit (Connect_cb result') nd1
         else if event_filter' then sta_emit (Event_filter NETDEV_EVENT_DISCONNECT_BY_SME) nd1
         else nd1)"

text \<open>\<open>netdev_cmd_deauthenticate_cb\<close>; \<open>err\<close> is \<open>l_genl_msg_get_error(msg)\<close>.\<close>

definition netdev_cmd_deauthenticate_cb :: "int \<Rightarrow> netdev \<Rightarrow> netdev" where
  "netdev_cmd_deauthenticate_cb err nd =
     (let nd1 = nd\<lparr>disconnect_cmd_id := 0\<rparr> in
      if \<not> disconnect_cb nd1 then nd1\<lparr>user_data := None\<rparr>
      else sta_emit (Disconnect_cb (\<not> err < 0)) (nd1\<lparr>user_data := None, disconnect_cb := False\<rparr>))"

text \<open>\<open>netdev_build_cmd_deauthenticate\<close> reads \<open>netdev->handshake->aa\<close>.\<close>

definition netdev_build_cmd_deauthenticate ::
  "netdev \<Rightarrow> mmpdu_reason_code \<Rightarrow> fault + nl80211_cmd" where
  "netdev_build_cmd_deauthenticate nd reason_code =
     (case handshake nd of
        None \<Rightarrow> Inl NULL_dereference
      | Some h \<Rightarrow> Inr (NL80211_CMD_DEAUTHENTICATE reason_code (hs_aa h)))"

subsection \<open>Key setting\<close>

text \<open>
  In the functions below \<open>err\<close> is \<open>l_genl_msg_get_error(msg)\<close> of the answer, and each
  parameter named \<open>..._id\<close> is the id \<open>l_genl_family_send\<close> returns for a request the
  function sends.
\<close>

definition netdev_operstate_cb :: "bool \<Rightarrow> u32 \<Rightarrow> netdev \<Rightarrow> fault + netdev" where
  "netdev_operstate_cb success deauth_id nd =
     (if \<not> connected nd then Inr nd
      else if \<not> success
      then (let nd1 = nd\<lparr>result := NETDEV_RESULT_KEY_SETTING_FAILED\<rparr> in
            case netdev_build_cmd_deauthenticate nd1 MMPDU_REASON_CODE_UNSPECIFIED of
              Inl f \<Rightarrow> Inl f
            | Inr msg \<Rightarrow>
                Inr ((l_genl_family_send msg Cb_netdev_connect_failed deauth_id nd1)
                       \<lparr>disconnect_cmd_id := deauth_id\<rparr>))
      else (let nd1 = nd\<lparr>operational := True\<rparr> in
            if connect_cb nd1
            then Inr ((sta_emit (Connect_cb NETDEV_RESULT_OK) nd1)\<lparr>connect_cb := False\<rparr>)
            else Inr nd1))"

text \<open>\<open>netdev_setting_keys_failed\<close>.  It does not read its parameter \<open>reason_code\<close>.\<close>

definition netdev_setting_keys_failed ::
  "u32 \<Rightarrow> mmpdu_reason_code \<Rightarrow> netdev \<Rightarrow> fault + netdev" where
  "netdev_setting_keys_failed deauth_id reason_code nd =
     (let nd1 = (l_genl_family_cancel (pairwise_new_key_cmd_id nd) nd)
                  \<lparr>pairwise_new_key_cmd_id := 0\<rparr>;
          nd2 = (l_genl_family_cancel (pairwise_set_key_cmd_id nd1) nd1)
                  \<lparr>pairwise_set_key_cmd_id := 0\<rparr>;
          nd3 = (l_genl_family_cancel (group_new_key_cmd_id nd2) nd2)
                  \<lparr>group_new_key_cmd_id := 0\<rparr>;
          nd4 = (l_genl_family_cancel (group_management_new_key_cmd_id nd3) nd3)
                  \<lparr>group_management_new_key_cmd_id := 0\<rparr>;
          nd5 = nd4\<lparr>result := NETDEV_RESULT_KEY_SETTING_FAILED\<rparr>
      in case netdev_build_cmd_deauthenticate nd5 MMPDU_REASON_CODE_UNSPECIFIED of
           Inl f \<Rightarrow> Inl f
         | Inr msg \<Rightarrow>
             Inr ((l_genl_family_send msg Cb_netdev_connect_failed deauth_id nd5)
                    \<lparr>disconnect_cmd_id := deauth_id\<rparr>))"

definition netdev_set_station_cb :: "int \<Rightarrow> u32 \<Rightarrow> netdev \<Rightarrow> fault + netdev" where
  "netdev_set_station_cb err deauth_id nd =
     (if \<not> connected nd then Inr nd
      else if err < 0
      then netdev_setting_keys_failed deauth_id MMPDU_REASON_CODE_UNSPECIFIED nd
      else Inr (sta_emit (Set_linkmode_and_operstate 1 IF_OPER_UP) nd))"

text \<open>\<open>netdev_build_cmd_set_station\<close> reads \<open>netdev->handshake->aa\<close>.\<close>

definition netdev_build_cmd_set_station :: "netdev \<Rightarrow> fault + nl80211_cmd" where
  "netdev_build_cmd_set_station nd =
     (case handshake nd of
        None \<Rightarrow> Inl NULL_dereference
      | Some h \<Rightarrow> Inr (NL80211_CMD_SET_STATION_authorized (hs_aa h)))"

text \<open>
  \<open>netdev_new_group_key_cb\<close>.  The id of its SET_STATION request is compared with 0 and
  dropped: no field of \<open>struct netdev\<close> keeps it.
\<close>

definition netdev_new_group_key_cb :: "int \<Rightarrow> u32 \<Rightarrow> u32 \<Rightarrow> netdev \<Rightarrow> fault + netdev" where
  "netdev_new_group_key_cb err set_station_id deauth_id nd =
     (let nd1 = nd\<lparr>group_new_key_cmd_id := 0\<rparr> in
      if err < 0
      then netdev_setting_keys_failed deauth_id MMPDU_REASON_CODE_UNSPECIFIED nd1
      else
        (case netdev_build_cmd_set_station nd1 of
           Inl f \<Rightarrow> Inl f
         | Inr msg \<Rightarrow>
             (let nd2 = l_genl_family_send msg Cb_netdev_set_station_cb set_station_id nd1 in
              if set_station_id > 0 then Inr nd2
              else netdev_setting_keys_failed deauth_id MMPDU_REASON_CODE_UNSPECIFIED nd2)))"

definition netdev_new_group_management_key_cb :: "int \<Rightarrow> u32 \<Rightarrow> netdev \<Rightarrow> fault + netdev" where
  "netdev_new_group_management_key_cb err deauth_id nd =
     (let nd1 = nd\<lparr>group_management_new_key_cmd_id := 0\<rparr> in
      if err < 0
      then netdev_setting_keys_failed deauth_id MMPDU_REASON_CODE_UNSPECIFIED nd1
      else Inr nd1)"

definition netdev_set_pairwise_key_cb :: "int \<Rightarrow> u32 \<Rightarrow> netdev \<Rightarrow> fault + netdev" where
  "netdev_set_pairwise_key_cb err deauth_id nd =
     (let nd1 = nd\<lparr>pairwise_set_key_cmd_id := 0\<rparr> in
      if err \<ge> 0 then Inr nd1
      else netdev_setting_keys_failed deauth_id MMPDU_REASON_CODE_UNSPECIFIED nd1)"

definition netdev_new_pairwise_key_cb :: "int \<Rightarrow> u32 \<Rightarrow> netdev \<Rightarrow> fault + netdev" where
  "netdev_new_pairwise_key_cb err deauth_id nd =
     (let nd1 = nd\<lparr>pairwise_new_key_cmd_id := 0\<rparr> in
      if err \<ge> 0 then Inr nd1
      else netdev_setting_keys_failed deauth_id MMPDU_REASON_CODE_UNSPECIFIED nd1)"

text \<open>Cipher suites of crypto.h, as IEEE 802.11 numbers them.\<close>

definition CRYPTO_CIPHER_TKIP :: u32 where "CRYPTO_CIPHER_TKIP = 0x000fac02"
definition CRYPTO_CIPHER_CCMP :: u32 where "CRYPTO_CIPHER_CCMP = 0x000fac04"
definition CRYPTO_CIPHER_BIP :: u32 where "CRYPTO_CIPHER_BIP = 0x000fac06"

text \<open>
  The key buffers \<open>gtk_buf\<close>, \<open>igtk_buf\<close> and \<open>tk_buf\<close> after the \<open>memcpy\<close>s of a cipher: for
  TKIP the two MIC keys change places.  The bytes the code leaves unwritten are not in the
  list.
\<close>

definition key_buf_ccmp :: "u8 list \<Rightarrow> u8 list" where
  "key_buf_ccmp key = take 16 key"

definition key_buf_tkip :: "u8 list \<Rightarrow> u8 list" where
  "key_buf_tkip key = take 16 key @ take 8 (drop 24 key) @ take 8 (drop 16 key)"

text \<open>
  \<open>netdev_set_gtk\<close>, \<open>netdev_set_igtk\<close> and \<open>netdev_set_tk\<close> for the netdev that
  \<open>netdev_find\<close> returns.
\<close>

definition netdev_set_gtk ::
  "netdev_env \<Rightarrow> u8 \<Rightarrow> u8 list \<Rightarrow> nat \<Rightarrow> u8 list \<Rightarrow> u32 \<Rightarrow> u32 \<Rightarrow> u32 \<Rightarrow> netdev
   \<Rightarrow> fault + netdev" where
  "netdev_set_gtk env key_index key key_len rsc cipher new_key_id deauth_id nd =
     (if crypto_cipher_key_len env cipher \<noteq> key_len
      then netdev_setting_keys_failed deauth_id MMPDU_REASON_CODE_INVALID_GROUP_CIPHER nd
      else if cipher \<noteq> CRYPTO_CIPHER_CCMP \<and> cipher \<noteq> CRYPTO_CIPHER_TKIP
      then netdev_setting_keys_failed deauth_id MMPDU_REASON_CODE_INVALID_GROUP_CIPHER nd
      else
        (let gtk_buf = (if cipher = CRYPTO_CIPHER_CCMP then key_buf_ccmp key
                        else key_buf_tkip key);
             msg = NL80211_CMD_NEW_KEY_group cipher key_index (take key_len gtk_buf) rsc;
             nd1 = (l_genl_family_send msg Cb_netdev_new_group_key_cb new_key_id nd)
                     \<lparr>group_new_key_cmd_id := new_key_id\<rparr>
         in if new_key_id > 0 then Inr nd1
            else netdev_setting_keys_failed deauth_id MMPDU_REASON_CODE_UNSPECIFIED nd1))"

definition netdev_set_igtk ::
  "netdev_env \<Rightarrow> u8 \<Rightarrow> u8 list \<Rightarrow> nat \<Rightarrow> u8 list \<Rightarrow> u32 \<Rightarrow> u32 \<Rightarrow> u32 \<Rightarrow> netdev
   \<Rightarrow> fault + netdev" where
  "netdev_set_igtk env key_index key key_len ipn cipher new_key_id deauth_id nd =
     (if crypto_cipher_key_len env cipher \<noteq> key_len
      then netdev_setting_keys_failed deauth_id MMPDU_REASON_CODE_INVALID_GROUP_CIPHER nd
      else if cipher \<noteq> CRYPTO_CIPHER_BIP
      then netdev_setting_keys_failed deauth_id MMPDU_REASON_CODE_INVALID_GROUP_CIPHER nd
      else
        (let igtk_buf = take 16 key;
             msg = NL80211_CMD_NEW_KEY_group cipher key_index (take key_len igtk_buf) ipn;
             nd1 = (l_genl_family_send msg Cb_netdev_new_group_management_key_cb new_key_id nd)
                     \<lparr>group_management_new_key_cmd_id := new_key_id\<rparr>
         in if new_key_id > 0 then Inr nd1
            else netdev_setting_keys_failed deauth_id MMPDU_REASON_CODE_UNSPECIFIED nd1))"

definition netdev_set_tk ::
  "netdev_env \<Rightarrow> mac_addr \<Rightarrow> u8 list \<Rightarrow> u32 \<Rightarrow> u32 \<Rightarrow> u32 \<Rightarrow> u32 \<Rightarrow> netdev
   \<Rightarrow> fault + netdev" where
  "netdev_set_tk env aa tk cipher new_key_id set_key_id deauth_id nd =
     (let nd1 = (if event_filter nd then sta_emit (Event_filter NETDEV_EVENT_SETTING_KEYS) nd
                 else nd)
      in if cipher \<noteq> CRYPTO_CIPHER_CCMP \<and> cipher \<noteq> CRYPTO_CIPHER_TKIP
         then netdev_setting_keys_failed deauth_id MMPDU_REASON_CODE_INVALID_PAIRWISE_CIPHER nd1
         else
           (let tk_buf = (if cipher = CRYPTO_CIPHER_CCMP then key_buf_ccmp tk
                          else key_buf_tkip tk);
                msg = NL80211_CMD_NEW_KEY_pairwise cipher aa
                        (take (crypto_cipher_key_len env cipher) tk_buf);
                nd2 = (l_genl_family_send msg Cb_netdev_new_pairwise_key_cb new_key_id nd1)
                        \<lparr>pairwise_new_key_cmd_id := new_key_id\<rparr>
            in if new_key_id = 0
               then netdev_setting_keys_failed deauth_id MMPDU_REASON_CODE_UNSPECIFIED nd2
               else
                 (let nd3 = (l_genl_family_send NL80211_CMD_SET_KEY_pairwise
                               Cb_netdev_set_pairwise_key_cb set_key_id nd2)
                              \<lparr>pairwise_set_key_cmd_id := set_key_id\<rparr>
                  in if set_key_id > 0 then Inr nd3
                     else netdev_setting_keys_failed deauth_id MMPDU_REASON_CODE_UNSPECIFIED
                            nd3)))"

subsection \<open>The Association Response\<close>


text \<open>\<open>p[1] + 2\<close> for a pointer \<open>p\<close> to an element.\<close>

definition ie_len :: "u8 list \<Rightarrow> nat" where
  "ie_len p = (case p of t # l # rest \<Rightarrow> unat l + 2 | _ \<Rightarrow> 2)"








subsection \<open>Disconnect\<close>


subsection \<open>Fast transition\<close>

text \<open>
  The fields of \<open>struct scan_bss\<close> (scan.h) that the functions below read, under their C
  names with the prefix \<open>bss_\<close>.  \<open>mde\<close> is the three bytes after the header of the
  Mobility Domain element the BSS advertises.
\<close>

record scan_bss =
  bss_addr :: mac_addr
  bss_frequency :: u32
  bss_ssid :: "u8 list"
  bss_rsne :: "u8 list option"
  bss_mde :: "u8 list"
  bss_mde_present :: bool

text \<open>\<open>memcpy(dst, src, n)\<close> into an array: the first \<open>n\<close> bytes of \<open>dst\<close> become those of \<open>src\<close>.\<close>

definition memcpy_to :: "u8 list \<Rightarrow> u8 list \<Rightarrow> nat \<Rightarrow> u8 list" where
  "memcpy_to dst src n = take n src @ drop n dst"

text \<open>\<open>struct ie_ft_info\<close> after \<open>memset(&ft_info, 0, sizeof(ft_info))\<close>, its arrays as ie.h sizes them.\<close>

definition ie_ft_info_zero :: ie_ft_info where
  "ie_ft_info_zero =
     \<lparr>mic_element_count = 0, mic = replicate 16 0, anonce = replicate 32 0,
      snonce = replicate 32 0, r0khid = replicate 48 0, r0khid_len = 0,
      r1khid = replicate 6 0, r1khid_present = False, gtk_key_id = 0, gtk_len = 0,
      gtk_rsc = replicate 8 0, gtk = replicate 40 0, igtk_key_id = 0,
      igtk_ipn = replicate 6 0, igtk_len = 0, igtk = replicate 24 0\<rparr>"

text \<open>
  \<open>netdev_build_cmd_ft_authenticate\<close>; \<open>None\<close> is its NULL.  A buffer a builder has filled
  goes into the \<open>iovec\<close> with the length \<open>buf[1] + 2\<close>.
\<close>

definition netdev_build_cmd_ft_authenticate ::
  "netdev_env \<Rightarrow> scan_bss \<Rightarrow> handshake_state \<Rightarrow> nl80211_cmd option" where
  "netdev_build_cmd_ft_authenticate env bss h =
     (let mde = [IE_TYPE_MOBILITY_DOMAIN, 3] @ take 3 (bss_mde bss) in
      case hs_own_ie h of
        None \<Rightarrow>
          Some (NL80211_CMD_AUTHENTICATE (bss_frequency bss) (bss_addr bss) (bss_ssid bss) [mde])
      | Some own_ie \<Rightarrow>
          (case ie_parse_rsne env (take (ie_len own_ie) own_ie) of
             None \<Rightarrow> None
           | Some rsn_info \<Rightarrow>
               (let rsne = snd (ie_build_rsne env
                                  (rsn_info\<lparr>num_pmkids := 1, pmkids := hs_pmk_r0_name h\<rparr>));
                    ft_info = ie_ft_info_zero
                                \<lparr>r0khid := memcpy_to (r0khid ie_ft_info_zero) (hs_r0khid h)
                                             (hs_r0khid_len h),
                                 r0khid_len := hs_r0khid_len h,
                                 snonce := memcpy_to (snonce ie_ft_info_zero) (hs_snonce h) 32\<rparr>;
                    fte = snd (ie_build_fast_bss_transition env ft_info)
                in Some (NL80211_CMD_AUTHENTICATE (bss_frequency bss) (bss_addr bss)
                           (bss_ssid bss)
                           [take (ie_len rsne) rsne, mde, take (ie_len fte) fte]))))"

text \<open>\<open>l_get_le16\<close>.\<close>

definition l_get_le16 :: "u8 list \<Rightarrow> u16" where
  "l_get_le16 p = (case p of a # b # rest \<Rightarrow> ucast a OR push_bit 8 (ucast b) | _ \<Rightarrow> 0)"

text \<open>
  \<open>netdev_fast_transition\<close> with the caller's callback \<open>cb\<close>: its return value and the
  netdev afterwards.  \<open>handshake_state_set_authenticator_address\<close> and
  \<open>handshake_state_set_ap_rsn\<close> are the writes of \<open>aa\<close> and \<open>ap_ie\<close>.
\<close>

definition netdev_fast_transition ::
  "netdev_env \<Rightarrow> scan_bss \<Rightarrow> bool \<Rightarrow> u32 \<Rightarrow> netdev \<Rightarrow> fault + int \<times> netdev" where
  "netdev_fast_transition env target_bss cb auth_id nd =
     (if \<not> operational nd then Inr (- ENOTCONN, nd)
      else
        (case handshake nd of
           None \<Rightarrow> Inl NULL_dereference
         | Some h \<Rightarrow>
             (case hs_mde h of
                None \<Rightarrow> Inr (- EINVAL, nd)
              | Some mde \<Rightarrow>
                  if \<not> bss_mde_present target_bss
                     \<or> l_get_le16 (drop 2 mde) \<noteq> l_get_le16 (bss_mde target_bss)
                  then Inr (- EINVAL, nd)
                  else
                    (let hs1 = h\<lparr>hs_snonce := handshake_state_new_snonce env h\<rparr> in
                     case netdev_build_cmd_ft_authenticate env target_bss hs1 of
                       None \<Rightarrow> Inr (- EINVAL, nd)
                     | Some cmd_authenticate \<Rightarrow>
                         (let nd1 = (l_genl_family_send cmd_authenticate
                                       Cb_netdev_cmd_authenticate_ft_cb auth_id
                                       (nd\<lparr>handshake := Some hs1\<rparr>))
                                      \<lparr>connect_cmd_id := auth_id\<rparr>
                          in if auth_id = 0 then Inr (- EIO, nd1\<lparr>handshake := Some h\<rparr>)
                             else
                               (let hs2 = hs1\<lparr>hs_aa := bss_addr target_bss,
                                               hs_ap_ie := bss_rsne target_bss,
                                               hs_mde := Some (take 2 mde
                                                   @ memcpy_to (drop 2 mde) (bss_mde target_bss) 3)\<rparr>;
                                    nd2 = nd1\<lparr>prev_bssid := hs_aa hs1, handshake := Some hs2\<rparr>;
                                    nd3 = (if netdev_sm nd2
                                           then sta_emit Netdev_eapol_sm_new
                                                  (sta_emit Netdev_eapol_sm_free nd2)
                                           else nd2);
                                    nd4 = nd3\<lparr>operational := False, in_ft := True,
                                              connect_cb := cb,
                                              frequency := bss_frequency target_bss\<rparr>;
                                    nd5 = genl_cancel_field group_new_key_cmd_id
                                            (\<lambda>v n. n\<lparr>group_new_key_cmd_id := v\<rparr>) nd4;
                                    nd6 = genl_cancel_field group_management_new_key_cmd_id
                                            (\<lambda>v n. n\<lparr>group_management_new_key_cmd_id := v\<rparr>)
                                            nd5
                                in Inr (0, nd6)))))))"

text \<open>
  \<open>netdev_build_cmd_ft_reassociate\<close> for the handshake \<open>netdev_get_handshake\<close> returns;
  \<open>Inr None\<close> is its NULL.  It reads \<open>hs->mde[1]\<close> whether or not \<open>hs->mde\<close> is set.
\<close>

definition netdev_build_cmd_ft_reassociate ::
  "netdev_env \<Rightarrow> u32 \<Rightarrow> mac_addr \<Rightarrow> handshake_state \<Rightarrow> fault + nl80211_cmd option" where
  "netdev_build_cmd_ft_reassociate env frequency' prev_bssid' h =
     (case hs_own_ie h of
        None \<Rightarrow>
          (case hs_mde h of
             None \<Rightarrow> Inl NULL_dereference
           | Some mde \<Rightarrow>
               Inr (Some (NL80211_CMD_ASSOCIATE frequency' (hs_aa h) prev_bssid' (hs_ssid h)
                            [take (ie_len mde) mde])))
      | Some own_ie \<Rightarrow>
          (case ie_parse_rsne env (take (ie_len own_ie) own_ie) of
             None \<Rightarrow> Inr None
           | Some rsn_info \<Rightarrow>
               (case hs_mde h of
                  None \<Rightarrow> Inl NULL_dereference
                | Some mde \<Rightarrow>
                    (let rsne = snd (ie_build_rsne env
                                       (rsn_info\<lparr>num_pmkids := 1, pmkids := hs_pmk_r1_name h\<rparr>));
                         ft_info = ie_ft_info_zero
                                     \<lparr>mic_element_count := 3,
                                      r0khid := memcpy_to (r0khid ie_ft_info_zero) (hs_r0khid h)
                                                  (hs_r0khid_len h),
                                      r0khid_len := hs_r0khid_len h,
                                      r1khid := memcpy_to (r1khid ie_ft_info_zero) (hs_r1khid h) 6,
                                      r1khid_present := True,
                                      anonce := memcpy_to (anonce ie_ft_info_zero) (hs_anonce h) 32,
                                      snonce := memcpy_to (snonce ie_ft_info_zero) (hs_snonce h) 32\<rparr>;
                         fte = snd (ie_build_fast_bss_transition env ft_info)
                     in case ft_calculate_fte_mic env h 5 (Some rsne) fte of
                          None \<Rightarrow> Inr None
                        | Some mic' \<Rightarrow>
                            (let fte' = snd (ie_build_fast_bss_transition env
                                               (ft_info\<lparr>mic := memcpy_to (mic ft_info) mic' 16\<rparr>))
                             in Inr (Some (NL80211_CMD_ASSOCIATE frequency' (hs_aa h) prev_bssid'
                                             (hs_ssid h)
                                             [take (ie_len rsne) rsne, take (ie_len mde) mde,
                                              take (ie_len fte') fte'])))))))"

definition netdev_cmd_authenticate_ft_cb :: "int \<Rightarrow> netdev \<Rightarrow> netdev" where
  "netdev_cmd_authenticate_ft_cb err nd =
     (let nd1 = nd\<lparr>connect_cmd_id := 0\<rparr> in
      if err < 0
      then netdev_connect_failed (nd1\<lparr>result := NETDEV_RESULT_AUTHENTICATION_FAILED\<rparr>)
      else nd1)"

subsection \<open>Answers from nl80211\<close>

text \<open>
  The answer to the request \<open>cmd_id\<close> arrives with the error \<open>err\<close>: nl80211 forgets the
  request and runs its callback.  \<open>id1\<close> and \<open>id2\<close> are the ids \<open>l_genl_family_send\<close>
  returns for what the callback sends (\<open>id2\<close> for the DEAUTHENTICATE of
  \<open>netdev_new_group_key_cb\<close> when its SET_STATION was not sent).  An answer to a request
  that is not held runs nothing.
\<close>

definition l_genl_reply :: "u32 \<Rightarrow> int \<Rightarrow> u32 \<Rightarrow> u32 \<Rightarrow> netdev \<Rightarrow> fault + netdev" where
  "l_genl_reply cmd_id err id1 id2 nd =
     (case find (\<lambda>p. fst p = cmd_id) (genl_pending nd) of
        None \<Rightarrow> Inr nd
      | Some (i, msg, cb) \<Rightarrow>
          (let nd1 = nd\<lparr>genl_pending := filter (\<lambda>p. fst p \<noteq> cmd_id) (genl_pending nd)\<rparr> in
           case cb of
             Cb_netdev_connect_failed \<Rightarrow> Inr (netdev_connect_failed nd1)
           | Cb_netdev_cmd_deauthenticate_cb \<Rightarrow> Inr (netdev_cmd_deauthenticate_cb err nd1)
           | Cb_netdev_set_station_cb \<Rightarrow> netdev_set_station_cb err id1 nd1
           | Cb_netdev_new_group_key_cb \<Rightarrow> netdev_new_group_key_cb err id1 id2 nd1
           | Cb_netdev_new_group_management_key_cb \<Rightarrow>
               netdev_new_group_management_key_cb err id1 nd1
           | Cb_netdev_new_pairwise_key_cb \<Rightarrow> netdev_new_pairwise_key_cb err id1 nd1
           | Cb_netdev_set_pairwise_key_cb \<Rightarrow> netdev_set_pairwise_key_cb err id1 nd1
           | Cb_netdev_cmd_authenticate_ft_cb \<Rightarrow> Inr (netdev_cmd_authenticate_ft_cb err nd1)))"

text \<open>One step after another, as long as the process lives.\<close>

definition and_then :: "fault + netdev \<Rightarrow> (netdev \<Rightarrow> fault + netdev) \<Rightarrow> fault + netdev" where
  "and_then r f = (case r of Inl e \<Rightarrow> Inl e | Inr nd \<Rightarrow> f nd)"

subsection \<open>Observations\<close>

text \<open>A DEAUTHENTICATE request among the actions, and the IEs of a command.\<close>

fun is_deauthenticate :: "netdev_action \<Rightarrow> bool" where
  "is_deauthenticate (L_genl_family_send (NL80211_CMD_DEAUTHENTICATE r a) cb i) = True"
| "is_deauthenticate a = False"


text \<open>
  The key-installation requests of the 4-Way Handshake: pairwise NEW_KEY, pairwise
  SET_KEY, group and group-management NEW_KEY, and SET_STATION.
\<close>

fun is_key_installation :: "nl80211_cmd \<Rightarrow> bool" where
  "is_key_installation (NL80211_CMD_NEW_KEY_pairwise c a k) = True"
| "is_key_installation NL80211_CMD_SET_KEY_pairwise = True"
| "is_key_installation (NL80211_CMD_NEW_KEY_group c i k s) = True"
| "is_key_installation (NL80211_CMD_SET_STATION_authorized a) = True"
| "is_key_installation c = False"


subsection \<open>A concrete station\<close>

text \<open>
  An instance of the parameters for the station: those of \<open>sample_env\<close>, an FTE parser that
  knows \<open>fte_initial\<close> (an FTE of an initial mobility domain association: all fields zero
  but the key holder ids), a MIC of sixteen bytes 0x5a, keys that decode to themselves, the
  key lengths of CCMP, TKIP and BIP, and the SNonce of thirty-two bytes 0x77.
\<close>

definition fte_initial :: "u8 list" where
  "fte_initial = [0x37, 0x02, 0x00, 0x00]"

definition ft_info_initial :: ie_ft_info where
  "ft_info_initial =
     ie_ft_info_zero\<lparr>r0khid := memcpy_to (replicate 48 0) [0x72, 0x30] 2, r0khid_len := 2,
                      r1khid := [0x02, 0x00, 0x00, 0x00, 0x00, 0xaa], r1khid_present := True\<rparr>"

definition sample_netdev_env :: netdev_env where
  "sample_netdev_env =
     \<lparr>ie_parse_rsne = ie_parse_rsne sample_env,
      ie_build_rsne = (\<lambda>info. (True, [0x30, of_nat (length (pmkids info))] @ pmkids info)),
      ie_parse_fast_bss_transition =
        (\<lambda>e. if e = fte_initial then Some ft_info_initial else None),
      ie_build_fast_bss_transition =
        (\<lambda>info. (True, [0x37, 0x60] @ snonce info @ anonce info @ mic info @ take 16 (r0khid info))),
      ie_tlv_extract_wsc_payload = ie_tlv_extract_wsc_payload sample_env,
      ie_tlv_encapsulate_wsc_payload = ie_tlv_encapsulate_wsc_payload sample_env,
      wsc_parse_probe_request = wsc_parse_probe_request sample_env,
      wsc_parse_association_request = wsc_parse_association_request sample_env,
      wsc_build_probe_response = wsc_build_probe_response sample_env,
      wsc_build_beacon = wsc_build_beacon sample_env,
      wsc_build_association_response = wsc_build_association_response sample_env,
      l_uintset_new_range = l_uintset_new_range sample_env,
      ops_write_extra_ies = None,
      handshake_util_ap_ie_matches = (\<lambda>r ap w. True),
      ft_calculate_fte_mic = (\<lambda>h n r f. Some (replicate 16 0x5a)),
      handshake_decode_fte_key = (\<lambda>h k n. Some (take n k)),
      crypto_cipher_key_len =
        (\<lambda>c. if c = CRYPTO_CIPHER_CCMP then 16 else if c = CRYPTO_CIPHER_TKIP then 32
             else if c = CRYPTO_CIPHER_BIP then 16 else 0),
      handshake_state_new_snonce = (\<lambda>h. replicate 32 0x77)\<rparr>"

text \<open>
  A handshake with the access point 02:00:00:00:00:aa in an RSN (CCMP, PSK), without and
  with the Mobility Domain element \<open>36 03 34 12 01\<close>, and a netdev that is connected and
  waits for the CONNECT event or is in its 4-Way Handshake: no request is out.
  \<open>sta_operational\<close> is the netdev once the connection is up, \<open>target_bss\<close> a BSS of the
  same mobility domain.
\<close>

definition sample_mde :: "u8 list" where
  "sample_mde = [0x36, 0x03, 0x34, 0x12, 0x01]"

definition sample_hs :: handshake_state where
  "sample_hs =
     \<lparr>hs_aa = 0x0200000000aa, hs_own_ie = Some rsne_ccmp_psk, hs_ap_ie = Some rsne_ccmp_psk,
      hs_mde = None, hs_fte = None, hs_pmk_r0_name = replicate 16 0xa0,
      hs_pmk_r1_name = replicate 16 0xa1, hs_r0khid = [0x72, 0x30], hs_r0khid_len = 2,
      hs_r1khid = [0x02, 0x00, 0x00, 0x00, 0x00, 0xaa], hs_anonce = replicate 32 0x0a,
      hs_snonce = replicate 32 0x05, hs_ssid = [0x4e, 0x65, 0x74]\<rparr>"

definition sta_connecting :: netdev where
  "sta_connecting =
     \<lparr>connect_cb = True, event_filter = True, disconnect_cb = False,
      neighbor_report_cb = False, user_data = Some 1, netdev_sm = True,
      handshake = Some sample_hs, pairwise_new_key_cmd_id = 0, pairwise_set_key_cmd_id = 0,
      group_new_key_cmd_id = 0, group_management_new_key_cmd_id = 0, connect_cmd_id = 0,
      disconnect_cmd_id = 0, result = NETDEV_RESULT_OK, prev_bssid = 0, frequency = 2412,
      connected = True, operational = False, rekey_offload_support = False, in_ft = False,
      genl_pending = [], sta_trace = []\<rparr>"

definition sta_connecting_ft :: netdev where
  "sta_connecting_ft = sta_connecting\<lparr>handshake := Some (sample_hs\<lparr>hs_mde := Some sample_mde\<rparr>)\<rparr>"

definition sta_operational :: netdev where
  "sta_operational = sta_connecting_ft\<lparr>operational := True, connect_cb := False\<rparr>"

definition target_bss :: scan_bss where
  "target_bss =
     \<lparr>bss_addr = 0x0200000000bb, bss_frequency = 5180, bss_ssid = [0x4e, 0x65, 0x74],
      bss_rsne = Some rsne_ccmp_psk, bss_mde = [0x34, 0x12, 0x01], bss_mde_present = True\<rparr>"

text \<open>
  A key setting that goes wrong.  The handshake gives the GTK, the IGTK and the TK (the
  requests get the ids 1 to 4), and the NEW_KEY of the GTK is answered well, which sends
  SET_STATION (id 5): this is \<open>key_setting_before\<close>.  Then the NEW_KEY of the IGTK is
  answered with \<open>-EINVAL\<close>, which sends the DEAUTHENTICATE (id 6): \<open>key_setting_fails\<close>.
  Then SET_STATION is answered well, and at last the DEAUTHENTICATE:
  \<open>key_setting_fails_then\<close>.
\<close>

definition key_setting_before :: "fault + netdev" where
  "key_setting_before =
     and_then
       (and_then
          (and_then
             (netdev_set_gtk sample_netdev_env 1 (replicate 16 0x11) 16 (replicate 6 0)
                CRYPTO_CIPHER_CCMP 1 0 sta_connecting)
             (netdev_set_igtk sample_netdev_env 4 (replicate 16 0x22) 16 (replicate 6 0)
                CRYPTO_CIPHER_BIP 2 0))
          (netdev_set_tk sample_netdev_env 0x0200000000aa (replicate 16 0x33)
             CRYPTO_CIPHER_CCMP 3 4 0))
       (l_genl_reply 1 0 5 0)"

definition key_setting_fails :: "fault + netdev" where
  "key_setting_fails = and_then key_setting_before (l_genl_reply 2 (- 22) 6 0)"

definition key_setting_fails_then :: "fault + netdev" where
  "key_setting_fails_then =
     and_then (and_then key_setting_fails (l_genl_reply 5 0 0 0)) (l_genl_reply 6 0 0 0)"

text \<open>
  A fast transition of \<open>sta_operational\<close> to \<open>target_bss\<close>: the netdev after
  \<open>netdev_fast_transition\<close>, its handshake once the Authenticate event has stored the
  ANonce, and the FT Associate command built from it.
\<close>

definition ft_netdev :: netdev where
  "ft_netdev = snd (projr (netdev_fast_transition sample_netdev_env target_bss True 9 sta_operational))"

definition ft_handshake :: handshake_state where
  "ft_handshake = (the (handshake ft_netdev))\<lparr>hs_anonce := replicate 32 0x0b\<rparr>"

definition ft_cmd_associate :: nl80211_cmd where
  "ft_cmd_associate =
     the (projr (netdev_build_cmd_ft_reassociate sample_netdev_env 5180 0x0200000000aa ft_handshake))"

section \<open>Properties of the access point\<close>

lemma trace_emit [simp]: "trace (emit a ap) = trace ap @ [a]"
  by (simp add: emit_def)

lemma sta_states_emit [simp]: "sta_states (emit a ap) = sta_states ap"
  by (simp add: emit_def)

subsection \<open>Authentication (claim C8)\<close>

text \<open>
  Claim C8, as amended.  For every Authentication frame whose \<open>address_1\<close> and
  \<open>address_3\<close> are the access point's own address, \<open>ap_auth_cb\<close> hands exactly one
  Authentication frame to the frame exchange: Open System, transaction sequence 2, sent to
  the sender.  Its status is UNSPECIFIED when an allow-list is configured and the sender is
  not on it, when the algorithm is not Open System, or when the transaction sequence is
  not 1; in these cases the station list is left as it was.  Otherwise the status is 0 and
  the sender has a Station record: the one it had, or a new one at the end of the list.
\<close>

theorem ap_auth_cb_reply:
  assumes "address_1 hdr = netdev_address ap" and "address_3 hdr = netdev_address ap"
  shows "trace (ap_auth_cb xid hdr auth ap) =
           trace ap @
           [Frame_xchg_start
              (Authentication_frame (address_2 hdr) (netdev_address ap) (netdev_address ap)
                 MMPDU_AUTH_ALGO_OPEN_SYSTEM 2
                 (if (authorized_macs (config ap) \<noteq> []
                      \<and> address_2 hdr \<notin> set (authorized_macs (config ap)))
                     \<or> algorithm auth \<noteq> MMPDU_AUTH_ALGO_OPEN_SYSTEM
                     \<or> transaction_sequence auth \<noteq> 1
                  then STATUS_FAIL MMPDU_REASON_CODE_UNSPECIFIED else STATUS_SUCCESS))
              ap_auth_reply_cb xid]
         \<and> sta_states (ap_auth_cb xid hdr auth ap) =
           (if (authorized_macs (config ap) \<noteq> []
                \<and> address_2 hdr \<notin> set (authorized_macs (config ap)))
               \<or> algorithm auth \<noteq> MMPDU_AUTH_ALGO_OPEN_SYSTEM
               \<or> transaction_sequence auth \<noteq> 1
               \<or> ap_sta_find ap (address_2 hdr) \<noteq> None
            then sta_states ap
            else sta_states ap @ [new_sta_state (address_2 hdr)])"
  using assms
  by (auto simp: ap_auth_cb_def ap_auth_reply_def ap_send_mgmt_frame_def frame_xchg_start_def
           emit_def Let_def
           split: option.splits)

text \<open>
  Scenario S6 and its counterpart: on \<open>s6_ap\<close> the frame from 02:00:00:00:00:02 is answered
  with UNSPECIFIED and leaves no Station record; the frame from 02:00:00:00:00:01 is
  answered with status 0 and creates one.
\<close>

theorem ap_auth_cb_reply_witness:
  "trace (ap_auth_cb 7 (hdr_to 0x0200000000aa 0x020000000002 0x0200000000aa) open_auth s6_ap) =
     [Frame_xchg_start
        (Authentication_frame 0x020000000002 0x0200000000aa 0x0200000000aa 0 2
           (STATUS_FAIL MMPDU_REASON_CODE_UNSPECIFIED)) ap_auth_reply_cb 7]
   \<and> sta_states (ap_auth_cb 7 (hdr_to 0x0200000000aa 0x020000000002 0x0200000000aa) open_auth s6_ap) = []
   \<and> trace (ap_auth_cb 7 (hdr_to 0x0200000000aa 0x020000000001 0x0200000000aa) open_auth s6_ap) =
     [Frame_xchg_start
        (Authentication_frame 0x020000000001 0x0200000000aa 0x0200000000aa 0 2
           STATUS_SUCCESS) ap_auth_reply_cb 7]
   \<and> sta_states (ap_auth_cb 7 (hdr_to 0x0200000000aa 0x020000000001 0x0200000000aa) open_auth s6_ap) =
     [new_sta_state 0x020000000001]"
  using ap_auth_cb_reply [of "hdr_to 0x0200000000aa 0x020000000002 0x0200000000aa" s6_ap 7 open_auth]
        ap_auth_cb_reply [of "hdr_to 0x0200000000aa 0x020000000001 0x0200000000aa" s6_ap 7 open_auth]
  by (simp add: hdr_to_def s6_ap_def s6_config_def open_auth_def ap_started_def
        MMPDU_AUTH_ALGO_OPEN_SYSTEM_def ap_sta_find_def)

text \<open>
  Claim C8 as it was stated fails: an Open System Authentication frame with transaction
  sequence 1, sent to the access point's address (\<open>address_1\<close>) but with another BSSID in
  \<open>address_3\<close>, arrives at an access point without an allow-list.  The claim promises a
  reply with status 0 and a Station record; \<open>ap_auth_cb\<close> returns at its address check,
  sends nothing and creates nothing.
\<close>

theorem ap_auth_cb_foreign_bssid:
  "authorized_macs (config open_ap) = []
   \<and> algorithm open_auth = MMPDU_AUTH_ALGO_OPEN_SYSTEM
   \<and> transaction_sequence open_auth = 1
   \<and> address_1 (hdr_to 0x0200000000aa 0x020000000002 0x0200000000bb) = netdev_address open_ap
   \<and> trace (ap_auth_cb 7 (hdr_to 0x0200000000aa 0x020000000002 0x0200000000bb) open_auth open_ap) = []
   \<and> sta_states (ap_auth_cb 7 (hdr_to 0x0200000000aa 0x020000000002 0x0200000000bb) open_auth open_ap) = []"
  by (simp add: ap_auth_cb_def hdr_to_def open_ap_def open_config_def open_auth_def
        ap_started_def MMPDU_AUTH_ALGO_OPEN_SYSTEM_def)

subsection \<open>Requests with an RSNE (claim C7)\<close>

lemma trace_sta_update [simp]: "trace (sta_update a f ap) = trace ap"
  by (simp add: sta_update_def)

lemma frame_xchg_start_fields [simp]:
  "trace (frame_xchg_start frame cb ud xid ap) = trace ap @ [Frame_xchg_start frame cb xid]"
  "sta_states (frame_xchg_start frame cb ud xid ap) = sta_states ap"
  "last_aid (frame_xchg_start frame cb ud xid ap) = last_aid ap"
  "frame_xchgs (frame_xchg_start frame cb ud xid ap) =
     frame_xchgs ap @ (if xid = 0 then [] else [(xid, cb, ud)])"
  by (simp_all add: frame_xchg_start_def emit_def Let_def)

text \<open>
  For a frame that is not a Probe Response, \<open>ap_write_extra_ies\<close> changes nothing and
  returns what \<open>ap_write_extra_ies_build\<close> writes.
\<close>

lemma ap_write_extra_ies_assoc:
  "stype \<noteq> MPDU_MANAGEMENT_SUBTYPE_PROBE_RESPONSE \<Longrightarrow>
   ap_write_extra_ies env now stype client ap =
     Inr (ap, ap_write_extra_ies_build env stype client ap)"
  by (cases stype)
     (simp_all add: ap_write_extra_ies_def ap_write_wsc_ie_def ap_write_extra_ies_build_def)

lemma last_assoc_status_resp [simp]:
  "last_assoc_status (ap_assoc_resp env xid sta dest status reassoc req cb ap) = Some status"
  by (simp add: ap_assoc_resp_def ap_send_mgmt_frame_def last_assoc_status_def Let_def)

lemma last_assoc_status_sta_update [simp]:
  "last_assoc_status (sta_update a f ap) = last_assoc_status ap"
  by (simp add: last_assoc_status_def)








lemma rates_of_Nil [simp]: "rates_of env [] = {}"
  by (simp add: rates_of_def)













subsection \<open>Requests with a WSC element (claim C10)\<close>

lemma sta_states_ap_update_beacon [simp]: "sta_states (ap_update_beacon env ap) = sta_states ap"
  by (simp add: ap_update_beacon_def Let_def)

lemma sta_states_ap_wsc_exit_pbc [simp]: "sta_states (ap_wsc_exit_pbc env ap) = sta_states ap"
  by (simp add: ap_wsc_exit_pbc_def Let_def)

lemma ap_sta_find_cong: "sta_states ap' = sta_states ap \<Longrightarrow> ap_sta_find ap' a = ap_sta_find ap a"
  by (simp add: ap_sta_find_def)




lemma build_ignores_rsne [simp]:
  "ap_write_wsc_ie_build (env\<lparr>ie_parse_rsne := f\<rparr>) = ap_write_wsc_ie_build env"
  "ap_write_extra_ies_build (env\<lparr>ie_parse_rsne := f\<rparr>) = ap_write_extra_ies_build env"
  "ap_build_beacon_pr_tail_build (env\<lparr>ie_parse_rsne := f\<rparr>) = ap_build_beacon_pr_tail_build env"
  "ap_update_beacon (env\<lparr>ie_parse_rsne := f\<rparr>) = ap_update_beacon env"
  "ap_wsc_exit_pbc (env\<lparr>ie_parse_rsne := f\<rparr>) = ap_wsc_exit_pbc env"
  by (auto simp: fun_eq_iff ap_write_wsc_ie_build_def ap_write_extra_ies_build_def
        ap_build_beacon_pr_tail_build_def ap_update_beacon_def ap_wsc_exit_pbc_def Let_def
      split: mpdu_management_subtype.splits option.splits prod.splits bool.splits)

lemma resp_ignores_rsne [simp]:
  "ap_assoc_resp (env\<lparr>ie_parse_rsne := f\<rparr>) = ap_assoc_resp env"
  "ap_assoc_reassoc_fail (env\<lparr>ie_parse_rsne := f\<rparr>) = ap_assoc_reassoc_fail env"
  "ap_assoc_reassoc_ok (env\<lparr>ie_parse_rsne := f\<rparr>) = ap_assoc_reassoc_ok env"
  by (auto simp: fun_eq_iff ap_assoc_resp_def ap_assoc_reassoc_fail_def ap_assoc_reassoc_ok_def
        Let_def
      split: option.splits)






subsection \<open>AID bookkeeping (claim C4)\<close>


lemma stas_inv_Nil [simp]: "stas_inv L []"
  by (simp add: stas_inv_def)










lemma sta_list_update_no_match:
  "find (\<lambda>s. addr s = a) stas = None \<Longrightarrow> sta_list_update a f stas = stas"
  by (induction stas) (auto split: if_splits)

lemma sta_list_update_fuse:
  "(\<And>s. addr (f1 s) = addr s) \<Longrightarrow>
   sta_list_update a f2 (sta_list_update a f1 stas) = sta_list_update a (\<lambda>s. f2 (f1 s)) stas"
  by (induction stas) auto

lemma sta_list_update_id: "sta_list_update a (\<lambda>s. s) stas = stas"
  by (induction stas) auto








lemma xchgs_inv_add:
  assumes "xchgs_inv stas xs"
    and "cb = ap_success_assoc_resp_cb_ref \<longrightarrow> (\<forall>a. ud = User_data_sta a \<longrightarrow> has_aid stas a)"
  shows "xchgs_inv stas (xs @ (if xid = 0 then [] else [(xid, cb, ud)]))"
  using assms by (auto simp: xchgs_inv_def)



text \<open>What the functions do to \<open>last_aid\<close>, to the station list and to the frame exchanges.\<close>

lemma last_aid_emit [simp]: "last_aid (emit x ap) = last_aid ap"
  by (simp add: emit_def)

lemma frame_xchgs_emit [simp]: "frame_xchgs (emit x ap) = frame_xchgs ap"
  by (simp add: emit_def)

lemma last_aid_sta_update [simp]: "last_aid (sta_update a f ap) = last_aid ap"
  by (simp add: sta_update_def)

lemma frame_xchgs_sta_update [simp]: "frame_xchgs (sta_update a f ap) = frame_xchgs ap"
  by (simp add: sta_update_def)

lemma sta_states_sta_update [simp]:
  "sta_states (sta_update a f ap) = sta_list_update a f (sta_states ap)"
  by (simp add: sta_update_def)

lemma ap_stop_handshake_stas [simp]:
  "sta_states (ap_stop_handshake a ap) =
     sta_list_update a
       (\<lambda>s. s\<lparr>sm := False, hs := False, wsc_settings := False, stop_handshake_work := False\<rparr>)
       (sta_states ap)"
  "last_aid (ap_stop_handshake a ap) = last_aid ap"
  "frame_xchgs (ap_stop_handshake a ap) = frame_xchgs ap"
  by (auto simp: ap_stop_handshake_def ap_sta_find_def sta_list_update_no_match
        split: option.splits)

lemma ap_drop_rsna_stas [simp]:
  "sta_states (ap_drop_rsna a ap) =
     sta_list_update a
       (\<lambda>s. s\<lparr>rsna := False, sm := False, hs := False, wsc_settings := False,
              stop_handshake_work := False\<rparr>)
       (sta_states ap)"
  "last_aid (ap_drop_rsna a ap) = last_aid ap"
  "frame_xchgs (ap_drop_rsna a ap) = frame_xchgs ap"
  by (auto simp: ap_drop_rsna_def ap_sta_find_def sta_list_update_no_match Let_def
        sta_list_update_fuse split: option.splits)

lemma ap_associate_sta_stas [simp]:
  "sta_states (ap_associate_sta a ap) =
     sta_list_update a (\<lambda>s. s\<lparr>associated := True, rsna := False\<rparr>) (sta_states ap)"
  "last_aid (ap_associate_sta a ap) = last_aid ap"
  "frame_xchgs (ap_associate_sta a ap) = frame_xchgs ap"
  by (auto simp: ap_associate_sta_def ap_sta_find_def sta_list_update_no_match
        split: option.splits)

lemma ap_update_beacon_aid [simp]:
  "last_aid (ap_update_beacon env ap) = last_aid ap"
  "frame_xchgs (ap_update_beacon env ap) = frame_xchgs ap"
  by (simp_all add: ap_update_beacon_def Let_def)

lemma ap_wsc_exit_pbc_aid [simp]:
  "last_aid (ap_wsc_exit_pbc env ap) = last_aid ap"
  "frame_xchgs (ap_wsc_exit_pbc env ap) = frame_xchgs ap"
  by (simp_all add: ap_wsc_exit_pbc_def Let_def emit_def)

lemma ap_assoc_resp_stas [simp]:
  "sta_states (ap_assoc_resp env xid sta dest status reassoc req cb ap) = sta_states ap"
  "last_aid (ap_assoc_resp env xid sta dest status reassoc req cb ap) = last_aid ap"
  "frame_xchgs (ap_assoc_resp env xid sta dest status reassoc req cb ap) =
     frame_xchgs ap @
     (if xid = 0 then []
      else [(xid, cb, case sta of None \<Rightarrow> User_data_NULL | Some a \<Rightarrow> User_data_sta a)])"
  by (simp_all add: ap_assoc_resp_def ap_send_mgmt_frame_def Let_def)


























lemma ap_sta_find_emit [simp]: "ap_sta_find (emit x ap) a = ap_sta_find ap a"
  by (simp add: ap_sta_find_def)

lemma ap_sta_find_ap_wsc_exit_pbc [simp]: "ap_sta_find (ap_wsc_exit_pbc env ap) a = ap_sta_find ap a"
  by (simp add: ap_sta_find_def)





















subsection \<open>Session overlap (claim C3)\<close>

lemma monitor_time: "AP_WSC_PBC_MONITOR_TIME * 1000000 = 120000000"
  by (simp add: AP_WSC_PBC_MONITOR_TIME_def)

lemma early_min_time:
  assumes "(now :: u64) < 120000000" and "t \<le> now"
  shows "\<not> (now - 120000000 < t)"
proof -
  have b: "unat now < 2 ^ 64"
    using unsigned_less [of now] by simp
  from assms have "unat now < 120000000" "unat t \<le> unat now"
    by (simp_all add: word_less_nat_alt word_le_nat_alt)
  moreover from this have "unat (now - 120000000) = unat now + 2 ^ 64 - 120000000"
    by (simp add: unat_sub_if_size word_size)
  ultimately show ?thesis
    by (simp add: word_less_nat_alt)
qed

lemma late_min_time:
  assumes "120000000 \<le> (now :: u64)" and "t \<le> now" and "now - t < 120000000"
  shows "now - 120000000 < t"
proof -
  from assms have "120000000 \<le> unat now" "unat t \<le> unat now" "unat (now - t) < 120000000"
    by (simp_all add: word_less_nat_alt word_le_nat_alt)
  moreover from this have "unat (now - 120000000) = unat now - 120000000"
    and "unat (now - t) = unat now - unat t"
    by (simp_all add: unat_sub_if_size word_size)
  ultimately show ?thesis
    by (simp add: word_less_nat_alt)
qed

text \<open>The loop over the stations returns only when it removes none.\<close>

lemma ap_interrupt_enrollees_eq:
  "ap_interrupt_enrollees first sender entries ap =
     (if list_ex (\<lambda>sta. associated sta \<and> assoc_rsne sta = None \<and> addr sta = first
                          \<and> addr sta \<noteq> sender) entries
      then Inl Use_after_free else Inr ap)"
  by (induction entries) (auto simp: Let_def)

text \<open>The beacon is built from the configuration and the push-button state.\<close>

lemma ap_build_beacon_pr_tail_build_cong:
  assumes "ciphers ap' = ciphers ap" and "ap_group_cipher ap' = ap_group_cipher ap"
    and "wsc_pbc_timeout ap' = wsc_pbc_timeout ap" and "wsc_dpid ap' = wsc_dpid ap"
    and "wsc_uuid_r ap' = wsc_uuid_r ap"
  shows "ap_build_beacon_pr_tail_build env MPDU_MANAGEMENT_SUBTYPE_BEACON None ap'
         = ap_build_beacon_pr_tail_build env MPDU_MANAGEMENT_SUBTYPE_BEACON None ap"
proof -
  have w: "ap_write_wsc_ie_build env MPDU_MANAGEMENT_SUBTYPE_BEACON None ap'
        = ap_write_wsc_ie_build env MPDU_MANAGEMENT_SUBTYPE_BEACON None ap"
    using assms by (simp add: ap_write_wsc_ie_build_def)
  have r: "ap_set_rsn_info ap' = ap_set_rsn_info ap"
    using assms by (simp add: ap_set_rsn_info_def)
  show ?thesis
    unfolding ap_build_beacon_pr_tail_build_def ap_write_extra_ies_build_def w r
    by (rule refl)
qed

text \<open>\<open>ap_wsc_exit_pbc\<close> in active PBC mode.\<close>

lemma ap_wsc_exit_pbc_eq:
  assumes "wsc_pbc_timeout ap"
  shows "ap_wsc_exit_pbc env ap =
      ap\<lparr>wsc_pbc_timeout := False, wsc_dpid := 0,
         trace :=
           trace ap @ [Timeout_remove]
           @ (if started ap
                 \<and> ap_build_beacon_pr_tail_build env MPDU_MANAGEMENT_SUBTYPE_BEACON
                     None (ap\<lparr>wsc_pbc_timeout := False, wsc_dpid := 0\<rparr>) \<noteq> []
              then [Genl_send (NL80211_CMD_SET_BEACON
                      (ap_build_beacon_pr_tail_build env
                         MPDU_MANAGEMENT_SUBTYPE_BEACON None
                         (ap\<lparr>wsc_pbc_timeout := False, wsc_dpid := 0\<rparr>)))]
              else [])
           @ [Handle_event AP_EVENT_PBC_MODE_EXIT]\<rparr>"
proof -
  define T where "T = ap_build_beacon_pr_tail_build env MPDU_MANAGEMENT_SUBTYPE_BEACON None
                        (ap\<lparr>wsc_pbc_timeout := False, wsc_dpid := 0\<rparr>)"
  define ap2 where "ap2 = (emit Timeout_remove ap)\<lparr>wsc_pbc_timeout := False, wsc_dpid := 0\<rparr>"
  have T': "ap_build_beacon_pr_tail_build env MPDU_MANAGEMENT_SUBTYPE_BEACON None ap2 = T"
    unfolding T_def ap2_def
    by (rule ap_build_beacon_pr_tail_build_cong) (simp_all add: emit_def)
  have 1: "ap_wsc_exit_pbc env ap = emit (Handle_event AP_EVENT_PBC_MODE_EXIT) (ap_update_beacon env ap2)"
    using assms by (simp add: ap_wsc_exit_pbc_def Let_def ap2_def)
  have s2: "started ap2 = started ap"
    by (simp add: ap2_def emit_def)
  have 2: "ap_update_beacon env ap2 =
             (if started ap \<and> T \<noteq> [] then emit (Genl_send (NL80211_CMD_SET_BEACON T)) ap2 else ap2)"
    unfolding ap_update_beacon_def Let_def T' s2 by simp
  show ?thesis
    unfolding 1 2 T_def [symmetric]
    by (rule ap_state.equality) (simp_all add: emit_def ap2_def)
qed

text \<open>
  Claim C3.  A PBC Probe Request arrives at the time \<open>now\<close> while active PBC mode is on, and
  the list holds the record of a PBC Probe Request that another MAC sent less than 120
  seconds before (no record is younger than \<open>now\<close>).  \<open>ap_process_wsc_probe_req\<close> is what
  \<open>ap_write_wsc_ie\<close> calls before it builds the WSC element of the Probe Response.
  \<^item> When \<open>now\<close> is at least 120 seconds and no associated station without RSNE has the
    address of the first record (the sender apart), the call leaves active PBC mode: it
    removes the timeout, sets the device password id to 0, sets the beacon anew with the
    tail built from that state (\<open>ap_update_beacon\<close> sends it when the access point is
    started and the tail is not empty) and sends \<open>AP_EVENT_PBC_MODE_EXIT\<close>, in this
    order; the list keeps the records that are younger than 120 seconds and not the
    sender's, and gets the new one.
  \<^item> When \<open>now\<close> is at least 120 seconds and there is such a station, the call removes
    it inside the loop over the stations and then reads the freed queue entry.
  \<^item> When \<open>now\<close> is less than 120 seconds, \<open>now - 120000000\<close> wraps around in
    \<open>uint64_t\<close>, every record expires, and the call only replaces the list by the new
    record: the access point stays in active PBC mode.
\<close>

theorem ap_process_wsc_probe_req_overlap:
  assumes parse: "wsc_parse_probe_request env wsc_data = Some req"
    and pbc: "config_methods req AND WSC_CONFIGURATION_METHOD_PUSH_BUTTON \<noteq> 0"
             "device_password_id req = WSC_DEVICE_PASSWORD_ID_PUSH_BUTTON"
    and active: "wsc_pbc_timeout ap"
    and other: "r \<in> set (wsc_pbc_probes ap)" "mac r \<noteq> sender" "now - timestamp r < 120000000"
    and clock: "\<forall>r \<in> set (wsc_pbc_probes ap). timestamp r \<le> now"
  shows "ap_process_wsc_probe_req env now sender wsc_data ap =
         (if now < 120000000
          then Inr (ap\<lparr>wsc_pbc_probes :=
                         [\<lparr>mac = sender, uuid_e = req_uuid_e req, timestamp = now\<rparr>]\<rparr>)
          else if list_ex (\<lambda>sta. associated sta \<and> assoc_rsne sta = None
                                  \<and> addr sta = mac (hd (wsc_pbc_probes ap))
                                  \<and> addr sta \<noteq> sender) (sta_states ap)
          then Inl Use_after_free
          else Inr (ap\<lparr>wsc_pbc_probes :=
                         filter (\<lambda>r. now - 120000000 < timestamp r \<and> mac r \<noteq> sender)
                           (wsc_pbc_probes ap)
                         @ [\<lparr>mac = sender, uuid_e = req_uuid_e req, timestamp = now\<rparr>],
                       wsc_pbc_timeout := False,
                       wsc_dpid := 0,
                       trace :=
                         trace ap @ [Timeout_remove]
                         @ (if started ap
                               \<and> ap_build_beacon_pr_tail_build env MPDU_MANAGEMENT_SUBTYPE_BEACON
                                   None (ap\<lparr>wsc_pbc_timeout := False, wsc_dpid := 0\<rparr>) \<noteq> []
                            then [Genl_send (NL80211_CMD_SET_BEACON
                                    (ap_build_beacon_pr_tail_build env
                                       MPDU_MANAGEMENT_SUBTYPE_BEACON None
                                       (ap\<lparr>wsc_pbc_timeout := False, wsc_dpid := 0\<rparr>)))]
                            else [])
                         @ [Handle_event AP_EVENT_PBC_MODE_EXIT]\<rparr>))"
proof (cases "now < 120000000")
  case early: True
  have "filter (\<lambda>r. \<not> ap_wsc_pbc_record_expire r \<lparr>min_time = now - 120000000, expiry_mac = sender\<rparr>)
          (wsc_pbc_probes ap) = []"
    using clock early_min_time [OF early]
    by (auto simp: filter_empty_conv ap_wsc_pbc_record_expire_def)
  with parse pbc early show ?thesis
    by (simp add: ap_process_wsc_probe_req_def Let_def monitor_time)
next
  case False
  then have late: "120000000 \<le> now"
    by simp
  let ?ed = "\<lparr>min_time = now - 120000000, expiry_mac = sender\<rparr>"
  let ?kept = "filter (\<lambda>r. \<not> ap_wsc_pbc_record_expire r ?ed) (wsc_pbc_probes ap)"
  let ?new = "\<lparr>mac = sender, uuid_e = req_uuid_e req, timestamp = now\<rparr>"
  let ?ap1 = "ap\<lparr>wsc_pbc_probes := ?kept @ [?new]\<rparr>"
  let ?first = "case wsc_pbc_probes ap of [] \<Rightarrow> 0 | r # rs \<Rightarrow> mac r"
  have kept: "?kept = filter (\<lambda>r. now - 120000000 < timestamp r \<and> mac r \<noteq> sender) (wsc_pbc_probes ap)"
    by (simp add: ap_wsc_pbc_record_expire_def)
  from other(1) clock have "timestamp r \<le> now" by blast
  with late other(3) have "now - 120000000 < timestamp r"
    by (intro late_min_time)
  with other have "r \<in> set ?kept"
    by (simp add: ap_wsc_pbc_record_expire_def)
  then have ne: "?kept \<noteq> []"
    by (metis empty_iff empty_set)
  from other(1) have first: "?first = mac (hd (wsc_pbc_probes ap))"
    by (cases "wsc_pbc_probes ap") auto
  have a1: "wsc_pbc_timeout ?ap1"
    using active by simp
  have eq: "ap_process_wsc_probe_req env now sender wsc_data ap
            = ap_interrupt_enrollees ?first sender (sta_states (ap_wsc_exit_pbc env ?ap1))
                (ap_wsc_exit_pbc env ?ap1)"
    using parse pbc active ne
    by (simp add: ap_process_wsc_probe_req_def Let_def monitor_time)
  have stas: "sta_states (ap_wsc_exit_pbc env ?ap1) = sta_states ap"
    by simp
  have tail: "ap_build_beacon_pr_tail_build env MPDU_MANAGEMENT_SUBTYPE_BEACON None
                (?ap1\<lparr>wsc_pbc_timeout := False, wsc_dpid := 0\<rparr>)
              = ap_build_beacon_pr_tail_build env MPDU_MANAGEMENT_SUBTYPE_BEACON None
                  (ap\<lparr>wsc_pbc_timeout := False, wsc_dpid := 0\<rparr>)"
    by (rule ap_build_beacon_pr_tail_build_cong) simp_all
  have exit: "ap_wsc_exit_pbc env ?ap1 =
      ap\<lparr>wsc_pbc_probes := ?kept @ [?new], wsc_pbc_timeout := False, wsc_dpid := 0,
         trace :=
           trace ap @ [Timeout_remove]
           @ (if started ap
                 \<and> ap_build_beacon_pr_tail_build env MPDU_MANAGEMENT_SUBTYPE_BEACON
                     None (ap\<lparr>wsc_pbc_timeout := False, wsc_dpid := 0\<rparr>) \<noteq> []
              then [Genl_send (NL80211_CMD_SET_BEACON
                      (ap_build_beacon_pr_tail_build env
                         MPDU_MANAGEMENT_SUBTYPE_BEACON None
                         (ap\<lparr>wsc_pbc_timeout := False, wsc_dpid := 0\<rparr>)))]
              else [])
           @ [Handle_event AP_EVENT_PBC_MODE_EXIT]\<rparr>"
    unfolding ap_wsc_exit_pbc_eq [OF a1, of env] tail by simp
  have res: "ap_process_wsc_probe_req env now sender wsc_data ap =
      (if list_ex (\<lambda>sta. associated sta \<and> assoc_rsne sta = None
                          \<and> addr sta = mac (hd (wsc_pbc_probes ap))
                          \<and> addr sta \<noteq> sender) (sta_states ap)
       then Inl Use_after_free
       else Inr (ap_wsc_exit_pbc env ?ap1))"
    unfolding eq stas ap_interrupt_enrollees_eq first by (rule refl)
  show ?thesis
    unfolding res exit
    unfolding kept
    using False by simp
qed

text \<open>
  The three cases at \<open>pbc_ap\<close>, for the request of 02:00:00:00:00:03 half a second after
  that of 02:00:00:00:00:02: at 50 seconds nothing but the list changes; at 200 seconds
  active PBC mode is left and the beacon is set anew; at 200 seconds with
  02:00:00:00:00:02 associated as an enrollee the call ends in the use after free.
\<close>

theorem ap_process_wsc_probe_req_overlap_witness:
  "ap_process_wsc_probe_req sample_env 50500000 sta3 wsc_probe_payload (pbc_ap 50000000)
   = Inr ((pbc_ap 50000000)
            \<lparr>wsc_pbc_probes := [\<lparr>mac = sta3, uuid_e = replicate 16 0x11, timestamp = 50500000\<rparr>]\<rparr>)
   \<and> ap_process_wsc_probe_req sample_env 200500000 sta3 wsc_probe_payload (pbc_ap 200000000)
   = Inr ((pbc_ap 200000000)
            \<lparr>wsc_pbc_probes := [\<lparr>mac = sta2, uuid_e = replicate 16 0x11, timestamp = 200000000\<rparr>,
                                \<lparr>mac = sta3, uuid_e = replicate 16 0x11, timestamp = 200500000\<rparr>],
             wsc_pbc_timeout := False, wsc_dpid := 0,
             trace := [Timeout_remove,
                       Genl_send (NL80211_CMD_SET_BEACON
                                    (rsne_ccmp_psk @ [0xdd, 0x05, 0x00, 0x50, 0xf2, 0x04, 0x00])),
                       Handle_event AP_EVENT_PBC_MODE_EXIT]\<rparr>)
   \<and> ap_process_wsc_probe_req sample_env 200500000 sta3 wsc_probe_payload
       ((pbc_ap 200000000)\<lparr>sta_states := [wsc_enrollee]\<rparr>)
   = Inl Use_after_free"
proof -
  let ?req = "\<lparr>config_methods = 0x0080, device_password_id = 0x0004,
                req_uuid_e = replicate 16 0x11\<rparr>"
  let ?r1 = "\<lparr>mac = sta2, uuid_e = replicate 16 0x11, timestamp = 50000000\<rparr>"
  let ?r2 = "\<lparr>mac = sta2, uuid_e = replicate 16 0x11, timestamp = 200000000\<rparr>"
  have parse: "wsc_parse_probe_request sample_env wsc_probe_payload = Some ?req"
    by (simp add: sample_env_def)
  have pbc: "config_methods ?req AND WSC_CONFIGURATION_METHOD_PUSH_BUTTON \<noteq> 0"
    "device_password_id ?req = WSC_DEVICE_PASSWORD_ID_PUSH_BUTTON"
    by (simp_all add: WSC_CONFIGURATION_METHOD_PUSH_BUTTON_def
          WSC_DEVICE_PASSWORD_ID_PUSH_BUTTON_def)
  have st: "wsc_pbc_timeout (pbc_ap t)" "wsc_pbc_probes (pbc_ap t) =
              [\<lparr>mac = sta2, uuid_e = replicate 16 0x11, timestamp = t\<rparr>]"
    "sta_states (pbc_ap t) = []" "trace (pbc_ap t) = []" "started (pbc_ap t)" for t
    by (simp_all add: pbc_ap_def open_ap_def ap_started_def)
  have ne: "sta2 \<noteq> sta3"
    by (simp add: sta2_def sta3_def)
  have tail: "ap_build_beacon_pr_tail_build sample_env MPDU_MANAGEMENT_SUBTYPE_BEACON None
                ((pbc_ap 200000000)\<lparr>wsc_pbc_timeout := False, wsc_dpid := 0\<rparr>)
              = rsne_ccmp_psk @ [0xdd, 0x05, 0x00, 0x50, 0xf2, 0x04, 0x00]"
    "ap_build_beacon_pr_tail_build sample_env MPDU_MANAGEMENT_SUBTYPE_BEACON None
                ((pbc_ap 200000000)\<lparr>sta_states := [wsc_enrollee], wsc_pbc_timeout := False, wsc_dpid := 0\<rparr>)
              = rsne_ccmp_psk @ [0xdd, 0x05, 0x00, 0x50, 0xf2, 0x04, 0x00]"
    by code_simp+
  have enr: "associated wsc_enrollee" "assoc_rsne wsc_enrollee = None" "addr wsc_enrollee = sta2"
    by (simp_all add: wsc_enrollee_def new_sta_state_def)
  have 1: "ap_process_wsc_probe_req sample_env 50500000 sta3 wsc_probe_payload (pbc_ap 50000000)
           = Inr ((pbc_ap 50000000)
               \<lparr>wsc_pbc_probes := [\<lparr>mac = sta3, uuid_e = replicate 16 0x11, timestamp = 50500000\<rparr>]\<rparr>)"
    using ap_process_wsc_probe_req_overlap
            [where env = sample_env and now = 50500000 and sender = sta3 and r = ?r1
               and ap = "pbc_ap 50000000", OF parse pbc st(1)] ne
    by (simp add: st)
  have 2: "ap_process_wsc_probe_req sample_env 200500000 sta3 wsc_probe_payload (pbc_ap 200000000)
   = Inr ((pbc_ap 200000000)
            \<lparr>wsc_pbc_probes := [\<lparr>mac = sta2, uuid_e = replicate 16 0x11, timestamp = 200000000\<rparr>,
                                \<lparr>mac = sta3, uuid_e = replicate 16 0x11, timestamp = 200500000\<rparr>],
             wsc_pbc_timeout := False, wsc_dpid := 0,
             trace := [Timeout_remove,
                       Genl_send (NL80211_CMD_SET_BEACON
                                    (rsne_ccmp_psk @ [0xdd, 0x05, 0x00, 0x50, 0xf2, 0x04, 0x00])),
                       Handle_event AP_EVENT_PBC_MODE_EXIT]\<rparr>)"
    using ap_process_wsc_probe_req_overlap
            [where env = sample_env and now = 200500000 and sender = sta3 and r = ?r2
               and ap = "pbc_ap 200000000", OF parse pbc st(1)] ne
    by (simp add: st tail rsne_ccmp_psk_def)
  have 3: "ap_process_wsc_probe_req sample_env 200500000 sta3 wsc_probe_payload
       ((pbc_ap 200000000)\<lparr>sta_states := [wsc_enrollee]\<rparr>) = Inl Use_after_free"
    using ap_process_wsc_probe_req_overlap
            [where env = sample_env and now = 200500000 and sender = sta3 and r = ?r2
               and ap = "(pbc_ap 200000000)\<lparr>sta_states := [wsc_enrollee]\<rparr>", OF parse pbc] ne
    by (simp add: st enr)
  from 1 2 3 show ?thesis
    by simp
qed

text \<open>
  The same as runs of the access point \<open>open_ap\<close>: the push of the button, the PBC Probe
  Request of 02:00:00:00:00:02 and, half a second later, that of 02:00:00:00:00:03.
  50 seconds after the clock started the second request is answered in active PBC mode,
  and the four actions of the run are the timeout created, the beacon set and the two
  Probe Responses.  200 seconds after it started the exit event precedes the last action,
  the second Probe Response.
\<close>

theorem pbc_overlap_missed_after_boot:
  "\<not> isl (ap_run sample_env (pbc_overlap 50000000) open_ap)
   \<and> wsc_pbc_timeout (projr (ap_run sample_env (pbc_overlap 50000000) open_ap))
   \<and> wsc_dpid (projr (ap_run sample_env (pbc_overlap 50000000) open_ap))
       = WSC_DEVICE_PASSWORD_ID_PUSH_BUTTON
   \<and> map mac (wsc_pbc_probes (projr (ap_run sample_env (pbc_overlap 50000000) open_ap))) = [sta3]
   \<and> Timeout_remove \<notin> set (trace (projr (ap_run sample_env (pbc_overlap 50000000) open_ap)))
   \<and> Handle_event AP_EVENT_PBC_MODE_EXIT
       \<notin> set (trace (projr (ap_run sample_env (pbc_overlap 50000000) open_ap)))
   \<and> length (trace (projr (ap_run sample_env (pbc_overlap 50000000) open_ap))) = 4
   \<and> \<not> isl (ap_run sample_env (pbc_overlap 200000000) open_ap)
   \<and> \<not> wsc_pbc_timeout (projr (ap_run sample_env (pbc_overlap 200000000) open_ap))
   \<and> Handle_event AP_EVENT_PBC_MODE_EXIT
       \<in> set (butlast (trace (projr (ap_run sample_env (pbc_overlap 200000000) open_ap))))"
  by code_simp

section \<open>Properties of the station\<close>

subsection \<open>Disconnect (claim C9)\<close>

lemma sta_trace_sta_emit [simp]: "sta_trace (sta_emit a nd) = sta_trace nd @ [a]"
  by (simp add: sta_emit_def)

lemma connected_sta_emit [simp]: "connected (sta_emit a nd) = connected nd"
  by (simp add: sta_emit_def)

lemma l_genl_family_cancel_deauth [simp]:
  "filter is_deauthenticate (sta_trace (l_genl_family_cancel i nd))
     = filter is_deauthenticate (sta_trace nd)"
  "connected (l_genl_family_cancel i nd) = connected nd"
  by (simp_all add: l_genl_family_cancel_def)






lemma l_genl_family_send_trace [simp]:
  "sta_trace (l_genl_family_send msg cb i nd) = sta_trace nd @ [L_genl_family_send msg cb i]"
  "connected (l_genl_family_send msg cb i nd) = connected nd"
  by (simp_all add: l_genl_family_send_def)




subsection \<open>Key setting failures (claim C2)\<close>

text \<open>
  Claim C2.  What \<open>netdev_setting_keys_failed\<close> does to a netdev with a handshake: it
  cancels the four requests whose ids \<open>struct netdev\<close> keeps (pairwise NEW_KEY, pairwise
  SET_KEY, group NEW_KEY, group-management NEW_KEY), sends DEAUTHENTICATE with reason
  UNSPECIFIED and the callback \<open>netdev_connect_failed\<close>, and sets the result
  KEY_SETTING_FAILED.  Every other request stays with nl80211: that includes SET_STATION,
  whose id \<open>netdev_new_group_key_cb\<close> drops.
\<close>

theorem netdev_setting_keys_failed_effect:
  assumes "handshake nd = Some h"
  shows "case netdev_setting_keys_failed deauth_id reason nd of
           Inl f \<Rightarrow> False
         | Inr nd' \<Rightarrow>
             sta_trace nd' =
               sta_trace nd @
               [L_genl_family_cancel (pairwise_new_key_cmd_id nd),
                L_genl_family_cancel (pairwise_set_key_cmd_id nd),
                L_genl_family_cancel (group_new_key_cmd_id nd),
                L_genl_family_cancel (group_management_new_key_cmd_id nd),
                L_genl_family_send
                  (NL80211_CMD_DEAUTHENTICATE MMPDU_REASON_CODE_UNSPECIFIED (hs_aa h))
                  Cb_netdev_connect_failed deauth_id]
             \<and> genl_pending nd' =
                 filter (\<lambda>p. fst p \<noteq> pairwise_new_key_cmd_id nd
                            \<and> fst p \<noteq> pairwise_set_key_cmd_id nd
                            \<and> fst p \<noteq> group_new_key_cmd_id nd
                            \<and> fst p \<noteq> group_management_new_key_cmd_id nd)
                   (genl_pending nd) @
                 (if deauth_id = 0 then []
                  else [(deauth_id,
                         NL80211_CMD_DEAUTHENTICATE MMPDU_REASON_CODE_UNSPECIFIED (hs_aa h),
                         Cb_netdev_connect_failed)])
             \<and> pairwise_new_key_cmd_id nd' = 0 \<and> pairwise_set_key_cmd_id nd' = 0
             \<and> group_new_key_cmd_id nd' = 0 \<and> group_management_new_key_cmd_id nd' = 0
             \<and> result nd' = NETDEV_RESULT_KEY_SETTING_FAILED
             \<and> disconnect_cmd_id nd' = deauth_id
             \<and> connected nd' = connected nd"
  using assms
  by (simp add: netdev_setting_keys_failed_def Let_def l_genl_family_cancel_def
        l_genl_family_send_def sta_emit_def netdev_build_cmd_deauthenticate_def)

text \<open>At the netdev of \<open>key_setting_before\<close>: of the requests 2, 3, 4 and 5, SET_STATION (5) stays.\<close>

theorem netdev_setting_keys_failed_effect_witness:
  "\<not> isl key_setting_before
   \<and> map fst (genl_pending (projr key_setting_before)) = [2, 3, 4, 5]
   \<and> map fst (genl_pending (projr (netdev_setting_keys_failed 6 MMPDU_REASON_CODE_UNSPECIFIED
                                      (projr key_setting_before)))) = [5, 6]
   \<and> result (projr (netdev_setting_keys_failed 6 MMPDU_REASON_CODE_UNSPECIFIED
                      (projr key_setting_before))) = NETDEV_RESULT_KEY_SETTING_FAILED"
proof -
  have b: "\<not> isl key_setting_before"
    "handshake (projr key_setting_before) = Some sample_hs"
    "map fst (genl_pending (projr key_setting_before)) = [2, 3, 4, 5]"
    "pairwise_new_key_cmd_id (projr key_setting_before) = 3"
    "pairwise_set_key_cmd_id (projr key_setting_before) = 4"
    "group_new_key_cmd_id (projr key_setting_before) = 0"
    "group_management_new_key_cmd_id (projr key_setting_before) = 2"
    by code_simp+
  have f: "map fst (filter (\<lambda>p. fst p \<noteq> a \<and> fst p \<noteq> b \<and> fst p \<noteq> c \<and> fst p \<noteq> d) ps)
           = filter (\<lambda>i. i \<noteq> a \<and> i \<noteq> b \<and> i \<noteq> c \<and> i \<noteq> d) (map fst ps)"
    for a b c d :: u32 and ps :: "(u32 \<times> nl80211_cmd \<times> l_genl_msg_func) list"
    by (induction ps) auto
  show ?thesis
    using netdev_setting_keys_failed_effect
            [where nd = "projr key_setting_before" and h = sample_hs and deauth_id = 6
               and reason = MMPDU_REASON_CODE_UNSPECIFIED, OF b(2)]
    by (cases "netdev_setting_keys_failed 6 MMPDU_REASON_CODE_UNSPECIFIED
                 (projr key_setting_before)")
       (simp_all add: b f)
qed

text \<open>
  The run.  After the failure SET_STATION is still out and was not cancelled; when it is
  answered the interface is set up, and only the answer to the DEAUTHENTICATE ends the
  attempt with KEY_SETTING_FAILED.
\<close>

theorem set_station_outlives_key_setting_failure:
  "\<not> isl key_setting_fails
   \<and> map (\<lambda>p. (fst p, fst (snd p))) (genl_pending (projr key_setting_fails))
       = [(5, NL80211_CMD_SET_STATION_authorized 0x0200000000aa),
          (6, NL80211_CMD_DEAUTHENTICATE MMPDU_REASON_CODE_UNSPECIFIED 0x0200000000aa)]
   \<and> filter is_key_installation (map (\<lambda>p. fst (snd p)) (genl_pending (projr key_setting_fails)))
       = [NL80211_CMD_SET_STATION_authorized 0x0200000000aa]
   \<and> L_genl_family_cancel 5 \<notin> set (sta_trace (projr key_setting_fails))
   \<and> \<not> isl key_setting_fails_then
   \<and> drop 11 (sta_trace (projr key_setting_fails_then))
       = [Set_linkmode_and_operstate 1 IF_OPER_UP, Netdev_eapol_sm_free,
          Netdev_handshake_state_free, Connect_cb NETDEV_RESULT_KEY_SETTING_FAILED]"
  by code_simp

subsection \<open>The CONNECT event (claim C1)\<close>






subsection \<open>Fast transition (claims C5 and C6)\<close>

lemma genl_cancel_field_trace:
  assumes "\<And>v n. sta_trace (s v n) = sta_trace n"
  shows "\<exists>rest. sta_trace (genl_cancel_field f s x) = sta_trace x @ rest"
  using assms by (simp add: genl_cancel_field_def l_genl_family_cancel_def)

lemma genl_cancel_field_handshake:
  assumes "\<And>v n. handshake (s v n) = handshake n"
  shows "handshake (genl_cancel_field f s x) = handshake x"
  using assms by (simp add: genl_cancel_field_def l_genl_family_cancel_def sta_emit_def)

text \<open>What a fast transition that returns 0 has done.\<close>

lemma netdev_fast_transition_ok:
  assumes ok: "netdev_fast_transition env bss cb auth_id nd = Inr (0, nd')"
    and hs: "handshake nd = Some h"
  shows "\<exists>mde cmd rest.
           hs_mde h = Some mde
           \<and> netdev_build_cmd_ft_authenticate env bss
                (h\<lparr>hs_snonce := handshake_state_new_snonce env h\<rparr>) = Some cmd
           \<and> sta_trace nd'
               = sta_trace nd @ L_genl_family_send cmd Cb_netdev_cmd_authenticate_ft_cb auth_id # rest
           \<and> handshake nd'
               = Some (h\<lparr>hs_snonce := handshake_state_new_snonce env h,
                         hs_aa := bss_addr bss, hs_ap_ie := bss_rsne bss,
                         hs_mde := Some (take 2 mde @ memcpy_to (drop 2 mde) (bss_mde bss) 3)\<rparr>)"
proof -
  let ?h1 = "h\<lparr>hs_snonce := handshake_state_new_snonce env h\<rparr>"
  from ok hs have op: "operational nd"
    by (auto simp: netdev_fast_transition_def ENOTCONN_def split: if_splits)
  from ok hs op obtain mde where mde: "hs_mde h = Some mde"
    by (cases "hs_mde h") (auto simp: netdev_fast_transition_def EINVAL_def)
  from ok hs op mde have pres: "\<not> (\<not> bss_mde_present bss
                                  \<or> l_get_le16 (drop 2 mde) \<noteq> l_get_le16 (bss_mde bss))"
    by (auto simp: netdev_fast_transition_def EINVAL_def split: if_splits)
  from ok hs op mde pres obtain cmd where cmd: "netdev_build_cmd_ft_authenticate env bss ?h1 = Some cmd"
    by (cases "netdev_build_cmd_ft_authenticate env bss ?h1")
       (auto simp: netdev_fast_transition_def EINVAL_def Let_def)
  from ok hs op mde pres cmd have id: "auth_id \<noteq> 0"
    by (auto simp: netdev_fast_transition_def EIO_def Let_def split: if_splits)
  let ?h2 = "?h1\<lparr>hs_aa := bss_addr bss, hs_ap_ie := bss_rsne bss,
                  hs_mde := Some (take 2 mde @ memcpy_to (drop 2 mde) (bss_mde bss) 3)\<rparr>"
  let ?nd1 = "(l_genl_family_send cmd Cb_netdev_cmd_authenticate_ft_cb auth_id
                 (nd\<lparr>handshake := Some ?h1\<rparr>))\<lparr>connect_cmd_id := auth_id\<rparr>"
  let ?nd2 = "?nd1\<lparr>prev_bssid := hs_aa ?h1, handshake := Some ?h2\<rparr>"
  let ?nd3 = "if netdev_sm ?nd2
              then sta_emit Netdev_eapol_sm_new (sta_emit Netdev_eapol_sm_free ?nd2)
              else ?nd2"
  let ?nd4 = "?nd3\<lparr>operational := False, in_ft := True, connect_cb := cb,
                    frequency := bss_frequency bss\<rparr>"
  let ?nd5 = "genl_cancel_field group_new_key_cmd_id
                (\<lambda>v n. n\<lparr>group_new_key_cmd_id := v\<rparr>) ?nd4"
  let ?nd6 = "genl_cancel_field group_management_new_key_cmd_id
                (\<lambda>v n. n\<lparr>group_management_new_key_cmd_id := v\<rparr>) ?nd5"
  from hs op mde pres cmd id have "netdev_fast_transition env bss cb auth_id nd = Inr (0, ?nd6)"
    by (simp add: netdev_fast_transition_def Let_def)
  with ok have nd': "nd' = ?nd6"
    by simp
  have t4: "\<exists>rest. sta_trace ?nd4
              = sta_trace nd @ L_genl_family_send cmd Cb_netdev_cmd_authenticate_ft_cb auth_id # rest"
    by (simp add: l_genl_family_send_def sta_emit_def)
  have h4: "handshake ?nd4 = Some ?h2"
    by (simp add: sta_emit_def)
  obtain r4 where r4: "sta_trace ?nd4
              = sta_trace nd @ L_genl_family_send cmd Cb_netdev_cmd_authenticate_ft_cb auth_id # r4"
    using t4 by blast
  obtain r5 where r5: "sta_trace ?nd5 = sta_trace ?nd4 @ r5"
    using genl_cancel_field_trace [of "\<lambda>v n. n\<lparr>group_new_key_cmd_id := v\<rparr>"
                                      group_new_key_cmd_id ?nd4]
    by auto
  obtain r6 where r6: "sta_trace ?nd6 = sta_trace ?nd5 @ r6"
    using genl_cancel_field_trace [of "\<lambda>v n. n\<lparr>group_management_new_key_cmd_id := v\<rparr>"
                                      group_management_new_key_cmd_id ?nd5]
    by auto
  have h6: "handshake ?nd6 = Some ?h2"
    using h4 by (simp add: genl_cancel_field_handshake)
  have "sta_trace nd'
        = sta_trace nd @ L_genl_family_send cmd Cb_netdev_cmd_authenticate_ft_cb auth_id
            # (r4 @ r5 @ r6)"
    unfolding nd' r6 r5 r4 by simp
  moreover have "handshake nd' = Some ?h2"
    unfolding nd' by (rule h6)
  ultimately show ?thesis
    using mde cmd by blast
qed

text \<open>The FT Authenticate command of an RSN.\<close>

lemma netdev_build_cmd_ft_authenticate_rsn:
  assumes "netdev_build_cmd_ft_authenticate env bss h = Some cmd"
    and "hs_own_ie h = Some own_ie"
  shows "\<exists>rsn_info ft_info.
           cmd = NL80211_CMD_AUTHENTICATE (bss_frequency bss) (bss_addr bss) (bss_ssid bss)
                   [take (ie_len (snd (ie_build_rsne env rsn_info))) (snd (ie_build_rsne env rsn_info)),
                    [IE_TYPE_MOBILITY_DOMAIN, 3] @ take 3 (bss_mde bss),
                    take (ie_len (snd (ie_build_fast_bss_transition env ft_info)))
                      (snd (ie_build_fast_bss_transition env ft_info))]
           \<and> num_pmkids rsn_info = 1 \<and> pmkids rsn_info = hs_pmk_r0_name h
           \<and> snonce ft_info = take 32 (hs_snonce h)
           \<and> r0khid_len ft_info = hs_r0khid_len h
           \<and> r0khid ft_info
               = take (hs_r0khid_len h) (hs_r0khid h) @ replicate (48 - hs_r0khid_len h) 0
           \<and> anonce ft_info = replicate 32 0
           \<and> mic ft_info = replicate 16 0
           \<and> mic_element_count ft_info = 0"
proof (cases "ie_parse_rsne env (take (ie_len own_ie) own_ie)")
  case None
  with assms show ?thesis
    by (simp add: netdev_build_cmd_ft_authenticate_def)
next
  case (Some info)
  let ?ri = "info\<lparr>num_pmkids := 1, pmkids := hs_pmk_r0_name h\<rparr>"
  let ?fi = "ie_ft_info_zero
               \<lparr>r0khid := memcpy_to (r0khid ie_ft_info_zero) (hs_r0khid h) (hs_r0khid_len h),
                r0khid_len := hs_r0khid_len h,
                snonce := memcpy_to (snonce ie_ft_info_zero) (hs_snonce h) 32\<rparr>"
  from assms Some
  have "cmd = NL80211_CMD_AUTHENTICATE (bss_frequency bss) (bss_addr bss) (bss_ssid bss)
                   [take (ie_len (snd (ie_build_rsne env ?ri))) (snd (ie_build_rsne env ?ri)),
                    [IE_TYPE_MOBILITY_DOMAIN, 3] @ take 3 (bss_mde bss),
                    take (ie_len (snd (ie_build_fast_bss_transition env ?fi)))
                      (snd (ie_build_fast_bss_transition env ?fi))]"
    by (simp add: netdev_build_cmd_ft_authenticate_def Let_def)
  moreover have "num_pmkids ?ri = 1 \<and> pmkids ?ri = hs_pmk_r0_name h
           \<and> snonce ?fi = take 32 (hs_snonce h)
           \<and> r0khid_len ?fi = hs_r0khid_len h
           \<and> r0khid ?fi
               = take (hs_r0khid_len h) (hs_r0khid h) @ replicate (48 - hs_r0khid_len h) 0
           \<and> anonce ?fi = replicate 32 0
           \<and> mic ?fi = replicate 16 0
           \<and> mic_element_count ?fi = 0"
    by (simp add: ie_ft_info_zero_def memcpy_to_def)
  ultimately show ?thesis
    by blast
qed

text \<open>
  Claim C5.  A fast transition in an RSN that returns 0 has sent, as its first action, an
  FT Authenticate command whose elements are an RSNE built from an information with one
  PMKID, the PMK-R0-Name; the element \<open>36 03\<close> followed by the three bytes of the target
  BSS's MDE; and an FTE built from an information whose SNonce is the new SNonce, whose
  R0KH-ID is that of the handshake, and whose ANonce, MIC and MIC element count are zero.
\<close>

theorem netdev_fast_transition_authenticate:
  assumes ok: "netdev_fast_transition env bss cb auth_id nd = Inr (0, nd')"
    and hs: "handshake nd = Some h"
    and rsn: "hs_own_ie h = Some own_ie"
  shows "\<exists>rsn_info ft_info rest.
           sta_trace nd'
             = sta_trace nd
               @ L_genl_family_send
                   (NL80211_CMD_AUTHENTICATE (bss_frequency bss) (bss_addr bss) (bss_ssid bss)
                      [take (ie_len (snd (ie_build_rsne env rsn_info)))
                         (snd (ie_build_rsne env rsn_info)),
                       [IE_TYPE_MOBILITY_DOMAIN, 3] @ take 3 (bss_mde bss),
                       take (ie_len (snd (ie_build_fast_bss_transition env ft_info)))
                         (snd (ie_build_fast_bss_transition env ft_info))])
                   Cb_netdev_cmd_authenticate_ft_cb auth_id
                 # rest
           \<and> num_pmkids rsn_info = 1 \<and> pmkids rsn_info = hs_pmk_r0_name h
           \<and> snonce ft_info = take 32 (handshake_state_new_snonce env h)
           \<and> r0khid_len ft_info = hs_r0khid_len h
           \<and> r0khid ft_info
               = take (hs_r0khid_len h) (hs_r0khid h) @ replicate (48 - hs_r0khid_len h) 0
           \<and> anonce ft_info = replicate 32 0
           \<and> mic ft_info = replicate 16 0
           \<and> mic_element_count ft_info = 0"
proof -
  let ?h1 = "h\<lparr>hs_snonce := handshake_state_new_snonce env h\<rparr>"
  from netdev_fast_transition_ok [OF ok hs]
  obtain cmd rest where cmd: "netdev_build_cmd_ft_authenticate env bss ?h1 = Some cmd"
    and tr: "sta_trace nd'
             = sta_trace nd @ L_genl_family_send cmd Cb_netdev_cmd_authenticate_ft_cb auth_id # rest"
    by blast
  from rsn have rsn1: "hs_own_ie ?h1 = Some own_ie"
    by simp
  from netdev_build_cmd_ft_authenticate_rsn [OF cmd rsn1]
  obtain rsn_info ft_info where
    c: "cmd = NL80211_CMD_AUTHENTICATE (bss_frequency bss) (bss_addr bss) (bss_ssid bss)
                   [take (ie_len (snd (ie_build_rsne env rsn_info))) (snd (ie_build_rsne env rsn_info)),
                    [IE_TYPE_MOBILITY_DOMAIN, 3] @ take 3 (bss_mde bss),
                    take (ie_len (snd (ie_build_fast_bss_transition env ft_info)))
                      (snd (ie_build_fast_bss_transition env ft_info))]"
    and p: "num_pmkids rsn_info = 1" "pmkids rsn_info = hs_pmk_r0_name ?h1"
      "snonce ft_info = take 32 (hs_snonce ?h1)"
      "r0khid_len ft_info = hs_r0khid_len ?h1"
      "r0khid ft_info
         = take (hs_r0khid_len ?h1) (hs_r0khid ?h1) @ replicate (48 - hs_r0khid_len ?h1) 0"
      "anonce ft_info = replicate 32 0" "mic ft_info = replicate 16 0"
      "mic_element_count ft_info = 0"
    by blast
  show ?thesis
    apply (rule exI [of _ rsn_info])
    apply (rule exI [of _ ft_info])
    apply (rule exI [of _ rest])
    using tr c p apply simp
    done
qed

lemma ft_netdev_facts:
  "netdev_fast_transition sample_netdev_env target_bss True 9 sta_operational = Inr (0, ft_netdev)"
  "handshake sta_operational = Some (sample_hs\<lparr>hs_mde := Some sample_mde\<rparr>)"
  "hs_own_ie (sample_hs\<lparr>hs_mde := Some sample_mde\<rparr>) = Some rsne_ccmp_psk"
  "hs_mde (sample_hs\<lparr>hs_mde := Some sample_mde\<rparr>)
     = Some [IE_TYPE_MOBILITY_DOMAIN, 3, 0x34, 0x12, 0x01]"
  "length (bss_mde target_bss) = 3"
  "handshake ft_netdev = Some (the (handshake ft_netdev))"
  "hs_mde ft_handshake = hs_mde (the (handshake ft_netdev))"
  "hs_own_ie ft_handshake = hs_own_ie (sample_hs\<lparr>hs_mde := Some sample_mde\<rparr>)"
  "netdev_build_cmd_ft_reassociate sample_netdev_env 5180 0x0200000000aa ft_handshake
     = Inr (Some ft_cmd_associate)"
  by code_simp+

text \<open>The fast transition of \<open>sta_operational\<close> to \<open>target_bss\<close>.\<close>

theorem netdev_fast_transition_authenticate_witness:
  "\<exists>rsn_info ft_info rest.
     sta_trace ft_netdev
       = L_genl_family_send
           (NL80211_CMD_AUTHENTICATE 5180 0x0200000000bb [0x4e, 0x65, 0x74]
              [take (ie_len (snd (ie_build_rsne sample_netdev_env rsn_info)))
                 (snd (ie_build_rsne sample_netdev_env rsn_info)),
               [0x36, 0x03, 0x34, 0x12, 0x01],
               take (ie_len (snd (ie_build_fast_bss_transition sample_netdev_env ft_info)))
                 (snd (ie_build_fast_bss_transition sample_netdev_env ft_info))])
           Cb_netdev_cmd_authenticate_ft_cb 9
         # rest
     \<and> num_pmkids rsn_info = 1 \<and> pmkids rsn_info = replicate 16 0xa0
     \<and> snonce ft_info = replicate 32 0x77
     \<and> r0khid_len ft_info = 2
     \<and> r0khid ft_info = [0x72, 0x30] @ replicate 46 0
     \<and> anonce ft_info = replicate 32 0
     \<and> mic ft_info = replicate 16 0
     \<and> mic_element_count ft_info = 0"
proof -
  have v: "sta_trace sta_operational = []" "bss_frequency target_bss = 5180"
    "bss_addr target_bss = 0x0200000000bb" "bss_ssid target_bss = [0x4e, 0x65, 0x74]"
    "[IE_TYPE_MOBILITY_DOMAIN, 3] @ take 3 (bss_mde target_bss) = [0x36, 0x03, 0x34, 0x12, 0x01]"
    "hs_pmk_r0_name (sample_hs\<lparr>hs_mde := Some sample_mde\<rparr>) = replicate 16 0xa0"
    "take 32 (handshake_state_new_snonce sample_netdev_env (sample_hs\<lparr>hs_mde := Some sample_mde\<rparr>))
       = replicate 32 0x77"
    "hs_r0khid_len (sample_hs\<lparr>hs_mde := Some sample_mde\<rparr>) = 2"
    "take 2 (hs_r0khid (sample_hs\<lparr>hs_mde := Some sample_mde\<rparr>)) = [0x72, 0x30]"
    by (simp_all add: sta_operational_def sta_connecting_ft_def sta_connecting_def target_bss_def
          sample_hs_def sample_netdev_env_def IE_TYPE_MOBILITY_DOMAIN_def)
  show ?thesis
    using netdev_fast_transition_authenticate [OF ft_netdev_facts(1,2,3)]
    unfolding v by simp
qed





end
